theory Spec2Isabelle
  imports Complex_Main
begin

section \<open>The notebook as a program\<close>

text \<open>
  The repository is one Jupyter notebook (\<^verbatim>\<open>content/c2/code.ipynb\<close>): a flat Python script
  that binds module-level names and calls into scikit-learn and statsmodels. The embedding
  keeps that shape. A cell is a state transformer over the table of global names; an
  expression reads that table and either yields a value or raises.

  \<^item> Numbers are Python's: an \<^verbatim>\<open>int\<close> is an unbounded integer, a \<^verbatim>\<open>float\<close> is an IEEE 754
    binary64 value with round-to-nearest-even, gradual underflow, signed zero, the two
    infinities and one NaN (payloads are not told apart).
  \<^item> The libraries are outside the repository. An imported module or class is an opaque
    object named by its dotted path, and calling, subscripting or reading an attribute of
    an opaque object yields the opaque object that records the operation and its
    operands. What a library call computes or mutates internally is not modelled, and
    imports are taken to succeed.
  \<^item> Besides the table of names and the printed lines, the state keeps two logs that the
    program cannot read: the library calls made and the names looked up, in order.
\<close>

subsection \<open>Doubles\<close>

datatype double = Finite real | NegZero | PosInf | NegInf | NaN

text \<open>The nearest integer, ties to the even one.\<close>

definition half_even :: "real \<Rightarrow> int" where
  "half_even y =
     (let f = \<lfloor>y\<rfloor>; d = y - of_int f
      in if d < 1 / 2 then f else if 1 / 2 < d then f + 1 else if even f then f else f + 1)"

text \<open>
  The binary exponent of a magnitude, by bisection over \<open>-1022 .. 1025\<close>: the largest \<open>e\<close>
  in that range with \<open>2\<^sup>e \<le> x\<close>, and \<open>-1022\<close> for the subnormal magnitudes below all
  of them.
\<close>

fun expo_search :: "nat \<Rightarrow> int \<Rightarrow> real \<Rightarrow> int" where
  "expo_search 0 lo x = lo"
| "expo_search (Suc n) lo x =
     (if 2 powi (lo + 2 ^ n) \<le> x then expo_search n (lo + 2 ^ n) x else expo_search n lo x)"

definition expo :: "real \<Rightarrow> int" where
  "expo x = expo_search 11 (- 1022) \<bar>x\<bar>"

definition ulp :: "real \<Rightarrow> real" where
  "ulp x = 2 powi (expo x - 52)"

text \<open>
  Rounding a real to 53 significant bits, with the exponent unbounded above; a result of
  magnitude \<open>2\<^sup>1\<^sup>0\<^sup>2\<^sup>4\<close> or more has overflowed.
\<close>

definition rnd :: "real \<Rightarrow> real" where
  "rnd x = of_int (half_even (x / ulp x)) * ulp x"

definition overflows :: "real \<Rightarrow> bool" where
  "overflows x = (2 ^ 1024 \<le> \<bar>rnd x\<bar>)"

text \<open>The double an exact result rounds to; \<open>neg\<close> is the sign a zero result carries.\<close>

definition to_double :: "bool \<Rightarrow> real \<Rightarrow> double" where
  "to_double neg x =
     (let r = rnd x
      in if 2 ^ 1024 \<le> r then PosInf
         else if r \<le> - (2 ^ 1024) then NegInf
         else if r = 0 then (if neg then NegZero else Finite 0)
         else Finite r)"

fun is_nan :: "double \<Rightarrow> bool" where
  "is_nan NaN = True"
| "is_nan _ = False"

fun is_inf :: "double \<Rightarrow> bool" where
  "is_inf PosInf = True"
| "is_inf NegInf = True"
| "is_inf _ = False"

fun is_zero :: "double \<Rightarrow> bool" where
  "is_zero (Finite x) = (x = 0)"
| "is_zero NegZero = True"
| "is_zero _ = False"

fun sign :: "double \<Rightarrow> bool" where
  "sign (Finite x) = (x < 0)"
| "sign NegZero = True"
| "sign NegInf = True"
| "sign _ = False"

fun dval :: "double \<Rightarrow> real" where
  "dval (Finite x) = x"
| "dval _ = 0"

definition dmul :: "double \<Rightarrow> double \<Rightarrow> double" where
  "dmul a b =
     (if is_nan a \<or> is_nan b then NaN
      else if is_inf a \<or> is_inf b then
        (if is_zero a \<or> is_zero b then NaN else if sign a = sign b then PosInf else NegInf)
      else to_double (sign a \<noteq> sign b) (dval a * dval b))"

definition ddiv :: "double \<Rightarrow> double \<Rightarrow> double" where
  "ddiv a b =
     (if is_nan a \<or> is_nan b then NaN
      else if is_inf a then
        (if is_inf b then NaN else if sign a = sign b then PosInf else NegInf)
      else if is_inf b then (if sign a = sign b then Finite 0 else NegZero)
      else if is_zero b then
        (if is_zero a then NaN else if sign a = sign b then PosInf else NegInf)
      else to_double (sign a \<noteq> sign b) (dval a / dval b))"

subsection \<open>Python numbers\<close>

type_synonym name = string

datatype py_error =
    NameError name
  | ZeroDivisionError
  | OverflowError
  | TypeError
  | AttributeError name

datatype num = PInt int | PFloat double

definition bind_res :: "py_error + 'a \<Rightarrow> ('a \<Rightarrow> py_error + 'b) \<Rightarrow> py_error + 'b" where
  "bind_res r f = (case r of Inl e \<Rightarrow> Inl e | Inr v \<Rightarrow> f v)"

text \<open>
  An \<^verbatim>\<open>int\<close> that meets a \<^verbatim>\<open>float\<close> is converted first, correctly rounded; one too large
  for a double raises \<^verbatim>\<open>OverflowError\<close>.
\<close>

definition int_to_double :: "int \<Rightarrow> py_error + double" where
  "int_to_double n =
     (if overflows (of_int n) then Inl OverflowError else Inr (Finite (rnd (of_int n))))"

fun as_double :: "num \<Rightarrow> py_error + double" where
  "as_double (PInt n) = int_to_double n"
| "as_double (PFloat d) = Inr d"

text \<open>
  True division. Of two \<^verbatim>\<open>int\<close>s it is the correctly rounded quotient, and raises when
  that is too large for a double. Otherwise both operands are converted, left first, and
  the doubles divided. A zero divisor of either sign raises. A float result that overflows
  is an infinity, not an exception.
\<close>

fun num_truediv :: "num \<Rightarrow> num \<Rightarrow> py_error + num" where
  "num_truediv (PInt a) (PInt b) =
     (if b = 0 then Inl ZeroDivisionError
      else if overflows (of_int a / of_int b) then Inl OverflowError
      else Inr (PFloat (to_double ((a < 0) \<noteq> (b < 0)) (of_int a / of_int b))))"
| "num_truediv x y =
     bind_res (as_double x) (\<lambda>a. bind_res (as_double y) (\<lambda>b.
       if is_zero b then Inl ZeroDivisionError else Inr (PFloat (ddiv a b))))"

fun num_mul :: "num \<Rightarrow> num \<Rightarrow> py_error + num" where
  "num_mul (PInt a) (PInt b) = Inr (PInt (a * b))"
| "num_mul x y =
     bind_res (as_double x) (\<lambda>a. bind_res (as_double y) (\<lambda>b. Inr (PFloat (dmul a b))))"

text \<open>A decimal float literal denotes the double nearest to it.\<close>

definition float_lit :: "real \<Rightarrow> num" where
  "float_lit r = PFloat (to_double False r)"

subsection \<open>Values and state\<close>

datatype val =
    Num num
  | Str string
  | ListV "val list"
  | Lib string
  | Call val "val list" "(name \<times> val) list"
  | Attr val name
  | Item val val

type_synonym env = "name \<rightharpoonup> val"

record state =
  env :: env
  out :: "val list list"
  calls :: "val list"
  reads :: "name list"

type_synonym 'a eval = "state \<Rightarrow> (py_error + 'a) \<times> state"

type_synonym expr = "val eval"

type_synonym stmt = "state \<Rightarrow> py_error option \<times> state"

subsection \<open>Expressions\<close>

definition bind_ev :: "'a eval \<Rightarrow> ('a \<Rightarrow> 'b eval) \<Rightarrow> 'b eval" where
  "bind_ev m f s = (case m s of (Inl e, s') \<Rightarrow> (Inl e, s') | (Inr v, s') \<Rightarrow> f v s')"

definition pure_ev :: "py_error + 'a \<Rightarrow> 'a eval" where
  "pure_ev r s = (r, s)"

text \<open>A name that is not bound raises \<^verbatim>\<open>NameError\<close>. Every lookup is logged.\<close>

definition var :: "name \<Rightarrow> expr" where
  "var x s =
     (case env s x of None \<Rightarrow> Inl (NameError x) | Some v \<Rightarrow> Inr v,
      s\<lparr>reads := reads s @ [x]\<rparr>)"

definition lit :: "val \<Rightarrow> expr" where
  "lit v = pure_ev (Inr v)"

text \<open>
  The operators on values. Operands that are not numbers raise \<^verbatim>\<open>TypeError\<close> here:
  sequence repetition and operators overloaded by library objects are not modelled.
\<close>

fun py_truediv :: "val \<Rightarrow> val \<Rightarrow> py_error + val" where
  "py_truediv (Num a) (Num b) = bind_res (num_truediv a b) (\<lambda>r. Inr (Num r))"
| "py_truediv _ _ = Inl TypeError"

fun py_mul :: "val \<Rightarrow> val \<Rightarrow> py_error + val" where
  "py_mul (Num a) (Num b) = bind_res (num_mul a b) (\<lambda>r. Inr (Num r))"
| "py_mul _ _ = Inl TypeError"

text \<open>Operands are evaluated left to right; the first exception wins.\<close>

definition binop :: "(val \<Rightarrow> val \<Rightarrow> py_error + val) \<Rightarrow> expr \<Rightarrow> expr \<Rightarrow> expr" where
  "binop f a b = bind_ev a (\<lambda>u. bind_ev b (\<lambda>v. pure_ev (f u v)))"

definition truediv :: "expr \<Rightarrow> expr \<Rightarrow> expr" where
  "truediv = binop py_truediv"

definition mul :: "expr \<Rightarrow> expr \<Rightarrow> expr" where
  "mul = binop py_mul"

fun is_object :: "val \<Rightarrow> bool" where
  "is_object (Num _) = False"
| "is_object (Str _) = False"
| "is_object (ListV _) = False"
| "is_object _ = True"

definition py_getattr :: "val \<Rightarrow> name \<Rightarrow> py_error + val" where
  "py_getattr v a = (if is_object v then Inr (Attr v a) else Inl (AttributeError a))"

definition py_getitem :: "val \<Rightarrow> val \<Rightarrow> py_error + val" where
  "py_getitem v k = (if is_object v then Inr (Item v k) else Inl TypeError)"

definition attr :: "expr \<Rightarrow> name \<Rightarrow> expr" where
  "attr a x = bind_ev a (\<lambda>v. pure_ev (py_getattr v x))"

definition subscript :: "expr \<Rightarrow> expr \<Rightarrow> expr" where
  "subscript = binop py_getitem"

fun eval_args :: "expr list \<Rightarrow> (val list) eval" where
  "eval_args [] = pure_ev (Inr [])"
| "eval_args (a # as) = bind_ev a (\<lambda>v. bind_ev (eval_args as) (\<lambda>vs. pure_ev (Inr (v # vs))))"

fun eval_kwargs :: "(name \<times> expr) list \<Rightarrow> ((name \<times> val) list) eval" where
  "eval_kwargs [] = pure_ev (Inr [])"
| "eval_kwargs ((k, a) # as) =
     bind_ev a (\<lambda>v. bind_ev (eval_kwargs as) (\<lambda>vs. pure_ev (Inr ((k, v) # vs))))"

text \<open>
  A call evaluates the callee, then the positional and the keyword arguments in order,
  and then calls: the call is logged and its result is the object that records it.
\<close>

definition py_call :: "val \<Rightarrow> val list \<Rightarrow> (name \<times> val) list \<Rightarrow> expr" where
  "py_call f args kwargs s =
     (if is_object f
      then (Inr (Call f args kwargs), s\<lparr>calls := calls s @ [Call f args kwargs]\<rparr>)
      else (Inl TypeError, s))"

definition call :: "expr \<Rightarrow> expr list \<Rightarrow> (name \<times> expr) list \<Rightarrow> expr" where
  "call f args kwargs =
     bind_ev f (\<lambda>fv. bind_ev (eval_args args) (\<lambda>vs.
       bind_ev (eval_kwargs kwargs) (\<lambda>kvs. py_call fv vs kvs)))"

subsection \<open>Statements\<close>

text \<open>
  A statement returns the exception it raised, if any, together with the state it leaves
  behind: the names a cell bound before it raised stay bound, as in a notebook kernel.
\<close>

definition assign :: "name \<Rightarrow> expr \<Rightarrow> stmt" where
  "assign x a s =
     (case a s of
        (Inl err, s') \<Rightarrow> (Some err, s')
      | (Inr v, s') \<Rightarrow> (None, s'\<lparr>env := (env s')(x \<mapsto> v)\<rparr>))"

definition expr_stmt :: "expr \<Rightarrow> stmt" where
  "expr_stmt a s = (case a s of (Inl err, s') \<Rightarrow> (Some err, s') | (Inr v, s') \<Rightarrow> (None, s'))"

definition print_stmt :: "expr list \<Rightarrow> stmt" where
  "print_stmt args s =
     (case eval_args args s of
        (Inl err, s') \<Rightarrow> (Some err, s')
      | (Inr vs, s') \<Rightarrow> (None, s'\<lparr>out := out s' @ [vs]\<rparr>))"

definition import_as :: "string \<Rightarrow> name \<Rightarrow> stmt" where
  "import_as m x s = (None, s\<lparr>env := (env s)(x \<mapsto> Lib m)\<rparr>)"

definition from_import :: "string \<Rightarrow> name \<Rightarrow> stmt" where
  "from_import m x = import_as (m @ ''.'' @ x) x"

text \<open>Statements run in order; the first exception ends the run.\<close>

fun block :: "stmt list \<Rightarrow> stmt" where
  "block [] s = (None, s)"
| "block (c # cs) s =
     (case c s of (None, s') \<Rightarrow> block cs s' | (Some err, s') \<Rightarrow> (Some err, s'))"

section \<open>The cells\<close>

subsection \<open>Data, regularized regression, cross validation\<close>

definition cell_data :: stmt where
  "cell_data = block [
     import_as ''numpy'' ''np'',
     import_as ''matplotlib.pyplot'' ''plt'',
     import_as ''seaborn'' ''sns'',
     from_import ''sklearn'' ''datasets'',
     assign ''boston'' (call (attr (var ''datasets'') ''load_boston'') [] []),
     assign ''X_train'' (subscript (var ''boston'') (lit (Str ''data''))),
     assign ''y_train'' (subscript (var ''boston'') (lit (Str ''target'')))]"

definition cell_regularized :: stmt where
  "cell_regularized = block [
     from_import ''sklearn.linear_model'' ''Ridge'',
     from_import ''sklearn.linear_model'' ''Lasso'',
     assign ''alpha'' (lit (Num (PInt 1))),
     assign ''ridge_model'' (call (var ''Ridge'') [] [(''alpha'', var ''alpha'')]),
     expr_stmt (call (attr (var ''ridge_model'') ''fit'') [var ''X_train'', var ''y_train''] []),
     assign ''lasso_model'' (call (var ''Lasso'') [] [(''alpha'', var ''alpha'')]),
     expr_stmt (call (attr (var ''lasso_model'') ''fit'') [var ''X_train'', var ''y_train''] [])]"

definition cell_cv :: stmt where
  "cell_cv = block [
     from_import ''sklearn.linear_model'' ''RidgeCV'',
     from_import ''sklearn.linear_model'' ''LassoCV'',
     assign ''alphas''
       (lit (ListV [Num (float_lit (1 / 100)), Num (PInt 1), Num (PInt 100)])),
     assign ''ridgeCV_model'' (call (var ''RidgeCV'') [] [(''alphas'', var ''alphas'')]),
     expr_stmt (call (attr (var ''ridgeCV_model'') ''fit'') [var ''X_train'', var ''y_train''] []),
     assign ''lassoCV_model'' (call (var ''LassoCV'') [] [(''alphas'', var ''alphas'')]),
     expr_stmt (call (attr (var ''lassoCV_model'') ''fit'') [var ''X_train'', var ''y_train''] [])]"

definition cell_report :: stmt where
  "cell_report = block [
     print_stmt [lit (Str ''Ridge alpha:''), attr (var ''ridgeCV'') ''alpha_''],
     print_stmt [lit (Str ''Lasso alpha:''), attr (var ''lassoCV'') ''alpha_'']]"

subsection \<open>Bayesian regression\<close>

definition cell_bayes :: stmt where
  "cell_bayes = block [
     from_import ''sklearn.linear_model'' ''BayesianRidge'',
     assign ''bayes_model'' (call (var ''BayesianRidge'') [] []),
     expr_stmt (call (attr (var ''bayes_model'') ''fit'') [var ''X_train'', var ''y_train''] [])]"

text \<open>
  The chunk that fixes \<open>\<sigma>\<^sup>2\<close> and \<open>\<tau>\<close>. The notebook writes the three numbers as literals,
  \<^verbatim>\<open>big_number = 10**5\<close>, \<^verbatim>\<open>alpha = 1/11.8\<close> and \<^verbatim>\<open>lam = 1/10\<close>; here they are the
  parameters \<open>big\<close>, \<open>sigma2\<close> and \<open>tau\<close>, any Python numbers, and \<open>bayes_hyper_script\<close> is
  the chunk with the notebook's own literals: the float \<^verbatim>\<open>11.8\<close>, the int \<^verbatim>\<open>10\<close> and the
  int that \<^verbatim>\<open>10**5\<close> evaluates to. Nothing else is changed: the statements, their order
  and the names they read and bind are the notebook's.
\<close>

definition bayes_hyper :: "num \<Rightarrow> num \<Rightarrow> num \<Rightarrow> stmt" where
  "bayes_hyper sigma2 tau big = block [
     assign ''big_number'' (lit (Num big)),
     assign ''alpha'' (truediv (lit (Num (PInt 1))) (lit (Num sigma2))),
     assign ''alpha_1'' (mul (var ''big_number'') (var ''alpha'')),
     assign ''alpha_2'' (var ''big_number''),
     assign ''lam'' (truediv (lit (Num (PInt 1))) (lit (Num tau))),
     assign ''lambda_1'' (mul (var ''big_number'') (var ''lam'')),
     assign ''lambda_2'' (var ''big_number'')]"

definition bayes_fit :: stmt where
  "bayes_fit = block [
     assign ''bayes_model'' (call (var ''BayesianRidge'') []
       [(''alpha_1'', var ''alpha_1''), (''alpha_2'', var ''alpha_2''),
        (''alpha_init'', var ''alpha''),
        (''lambda_1'', var ''lambda_1''), (''lambda_2'', var ''lambda_2''),
        (''lambda_init'', var ''lam'')]),
     expr_stmt (call (attr (var ''bayes_model'') ''fit'') [var ''X_train'', var ''y_train''] [])]"

definition bayes_chunk :: "num \<Rightarrow> num \<Rightarrow> num \<Rightarrow> stmt" where
  "bayes_chunk sigma2 tau big = block [bayes_hyper sigma2 tau big, bayes_fit]"

definition bayes_hyper_script :: stmt where
  "bayes_hyper_script = bayes_hyper (float_lit (118 / 10)) (PInt 10) (PInt (10 ^ 5))"

text \<open>
  The configurator of the specification is this chunk seen as a function: run the seven
  assignments from a state, then read the six names \<^verbatim>\<open>alpha_1\<close>, \<^verbatim>\<open>alpha_2\<close>,
  \<^verbatim>\<open>lambda_1\<close>, \<^verbatim>\<open>lambda_2\<close>, \<^verbatim>\<open>alpha\<close>, \<^verbatim>\<open>lam\<close> as numbers.
\<close>

definition num_of :: "name \<Rightarrow> env \<Rightarrow> py_error + num" where
  "num_of x e =
     (case e x of
        None \<Rightarrow> Inl (NameError x)
      | Some v \<Rightarrow> (case v of Num r \<Rightarrow> Inr r | _ \<Rightarrow> Inl TypeError))"

definition outputs :: "env \<Rightarrow> py_error + num \<times> num \<times> num \<times> num \<times> num \<times> num" where
  "outputs e =
     bind_res (num_of ''alpha_1'' e) (\<lambda>a1. bind_res (num_of ''alpha_2'' e) (\<lambda>a2.
     bind_res (num_of ''lambda_1'' e) (\<lambda>l1. bind_res (num_of ''lambda_2'' e) (\<lambda>l2.
     bind_res (num_of ''alpha'' e) (\<lambda>a. bind_res (num_of ''lam'' e) (\<lambda>l.
       Inr (a1, a2, l1, l2, a, l)))))))"

definition configurator ::
  "num \<Rightarrow> num \<Rightarrow> num \<Rightarrow> state \<Rightarrow> py_error + num \<times> num \<times> num \<times> num \<times> num \<times> num" where
  "configurator sigma2 tau big s =
     (case bayes_hyper sigma2 tau big s of
        (Some err, _) \<Rightarrow> Inl err
      | (None, s') \<Rightarrow> outputs (env s'))"

subsection \<open>Poisson regression\<close>

definition cell_poisson :: stmt where
  "cell_poisson = block [
     import_as ''statsmodels.api'' ''sm'',
     assign ''X_train_with_constant'' (call (attr (var ''sm'') ''add_constant'') [var ''X_train''] []),
     assign ''poisson_model'' (call (attr (var ''sm'') ''GLM'') [var ''y_train'', var ''X_train'']
       [(''family'', call (attr (attr (var ''sm'') ''families'') ''Poisson'') [] [])]),
     expr_stmt (call (attr (var ''poisson_model'') ''fit'') [] [])]"

subsection \<open>The notebook\<close>

text \<open>
  The code cells in order, as \<^verbatim>\<open>Run All\<close> executes them, and the state of a kernel that
  has just started. The chunk that fixes \<open>\<sigma>\<^sup>2\<close> and \<open>\<tau>\<close> sits in a markdown cell and is not
  part of the run; \<open>loaded\<close> is a state in which it can be pasted and run, reached by the
  data cell and the first Bayesian cell.
\<close>

definition notebook :: stmt where
  "notebook = block [cell_data, cell_regularized, cell_cv, cell_report, cell_bayes, cell_poisson]"

definition fresh :: state where
  "fresh = \<lparr>env = Map.empty, out = [], calls = [], reads = []\<rparr>"

definition loaded :: state where
  "loaded = snd (block [cell_data, cell_bayes] fresh)"

subsection \<open>Classes of inputs\<close>

text \<open>
  The exact value of a finite number, what Python's \<^verbatim>\<open>== 0\<close> and \<^verbatim>\<open>> 0\<close> say of a number,
  whether a number can meet a float without \<^verbatim>\<open>OverflowError\<close>, and a range of ordinary
  magnitudes, from \<open>2\<^sup>-\<^sup>3\<^sup>0\<^sup>0\<close> to \<open>2\<^sup>3\<^sup>0\<^sup>0\<close>, in which no operation of the chunk overflows or
  underflows.
\<close>

fun rv :: "num \<Rightarrow> real" where
  "rv (PInt n) = of_int n"
| "rv (PFloat d) = dval d"

fun zero_num :: "num \<Rightarrow> bool" where
  "zero_num (PInt n) = (n = 0)"
| "zero_num (PFloat d) = is_zero d"

fun pos_num :: "num \<Rightarrow> bool" where
  "pos_num (PInt n) = (0 < n)"
| "pos_num (PFloat (Finite x)) = (0 < x)"
| "pos_num (PFloat PosInf) = True"
| "pos_num (PFloat _) = False"

fun fits :: "num \<Rightarrow> bool" where
  "fits (PInt n) = (\<bar>rnd (of_int n)\<bar> < 2 ^ 1024)"
| "fits (PFloat d) = True"

fun moderate :: "num \<Rightarrow> bool" where
  "moderate (PInt n) = (1 \<le> n \<and> n \<le> 2 ^ 300)"
| "moderate (PFloat (Finite x)) = (1 / 2 ^ 300 \<le> x \<and> x \<le> 2 ^ 300)"
| "moderate (PFloat _) = False"

text \<open>A positive real within \<open>k\<close> binary orders of magnitude of one.\<close>

definition mag :: "nat \<Rightarrow> real \<Rightarrow> bool" where
  "mag k x = (1 / 2 ^ k \<le> x \<and> x \<le> 2 ^ k)"

section \<open>Rounding\<close>

lemma half_even_err: "\<bar>of_int (half_even y) - y\<bar> \<le> 1 / 2"
proof -
  have "of_int \<lfloor>y\<rfloor> \<le> y" "y < of_int \<lfloor>y\<rfloor> + 1" by linarith+
  then show ?thesis
    by (auto simp add: half_even_def Let_def)
qed

lemma expo_search_lower: "2 powi lo \<le> x \<Longrightarrow> 2 powi (expo_search n lo x) \<le> x"
  by (induction n arbitrary: lo) auto

lemma expo_search_upper:
  "lo \<le> k \<Longrightarrow> x < 2 powi (k + 1) \<Longrightarrow> expo_search n lo x \<le> k"
proof (induction n arbitrary: lo)
  case 0
  then show ?case by simp
next
  case (Suc n)
  show ?case
  proof (cases "2 powi (lo + 2 ^ n) \<le> x")
    case True
    with Suc.prems have lt: "(2::real) powi (lo + 2 ^ n) < 2 powi (k + 1)" by simp
    have "lo + 2 ^ n < k + 1"
    proof (rule ccontr)
      assume "\<not> lo + 2 ^ n < k + 1"
      then have "(2::real) powi (k + 1) \<le> 2 powi (lo + 2 ^ n)"
        by (intro power_int_increasing) simp_all
      with lt show False by simp
    qed
    then have "expo_search n (lo + 2 ^ n) x \<le> k"
      using Suc.prems by (intro Suc.IH) simp_all
    with True show ?thesis by simp
  next
    case False
    then show ?thesis using Suc.IH [OF Suc.prems] by simp
  qed
qed

lemma expo_lower: "2 powi (- 1022) \<le> \<bar>x\<bar> \<Longrightarrow> 2 powi (expo x) \<le> \<bar>x\<bar>"
  unfolding expo_def by (rule expo_search_lower)

lemma expo_upper: "- 1022 \<le> k \<Longrightarrow> \<bar>x\<bar> < 2 powi (k + 1) \<Longrightarrow> expo x \<le> k"
  unfolding expo_def by (rule expo_search_upper)

lemma ulp_pos: "0 < ulp x"
  by (simp add: ulp_def)

lemma rnd_err: "\<bar>rnd x - x\<bar> \<le> ulp x / 2"
proof -
  have "rnd x - x = (of_int (half_even (x / ulp x)) - x / ulp x) * ulp x"
    using ulp_pos [of x] by (simp add: rnd_def left_diff_distrib)
  then have "\<bar>rnd x - x\<bar> = \<bar>of_int (half_even (x / ulp x)) - x / ulp x\<bar> * ulp x"
    using ulp_pos [of x] by (simp add: abs_mult)
  also have "\<dots> \<le> 1 / 2 * ulp x"
    using half_even_err [of "x / ulp x"] ulp_pos [of x] by (intro mult_right_mono) simp_all
  finally show ?thesis by simp
qed

lemma ulp_le: "2 powi (- 1022) \<le> \<bar>x\<bar> \<Longrightarrow> ulp x \<le> \<bar>x\<bar> / 2 ^ 52"
proof -
  assume "2 powi (- 1022) \<le> \<bar>x\<bar>"
  then have "2 powi (expo x) \<le> \<bar>x\<bar>" by (rule expo_lower)
  moreover have "ulp x = 2 powi (expo x) / 2 ^ 52"
    by (simp add: ulp_def power_int_diff)
  ultimately show ?thesis by (simp add: divide_right_mono)
qed

lemma rnd_rel: "2 powi (- 1022) \<le> \<bar>x\<bar> \<Longrightarrow> \<bar>rnd x - x\<bar> \<le> \<bar>x\<bar> / 2 ^ 53"
  using rnd_err [of x] ulp_le [of x] by simp

lemma rnd_one: "rnd 1 = 1"
  by (simp add: rnd_def ulp_def half_even_def expo_def eval_nat_numeral Let_def)

lemma rnd_le_one: "\<bar>x\<bar> \<le> 1 \<Longrightarrow> \<bar>rnd x\<bar> \<le> 2"
proof -
  assume x: "\<bar>x\<bar> \<le> 1"
  then have "expo x \<le> 0" by (intro expo_upper) simp_all
  then have "ulp x \<le> 2 powi (0 - 52)"
    unfolding ulp_def by (intro power_int_increasing) simp_all
  then have "ulp x \<le> 1" by (simp add: power_int_diff)
  with rnd_err [of x] x show ?thesis by linarith
qed

lemma expo_search_numeral:
  "expo_search (numeral k) lo x =
     (if 2 powi (lo + 2 ^ pred_numeral k) \<le> x
      then expo_search (pred_numeral k) (lo + 2 ^ pred_numeral k) x
      else expo_search (pred_numeral k) lo x)"
  by (simp add: numeral_eq_Suc)

lemmas rnd_eval = rnd_def ulp_def half_even_def expo_def expo_search_numeral Let_def

lemmas num_eval = int_to_double_def overflows_def to_double_def dmul_def ddiv_def bind_res_def
  float_lit_def rnd_eval

section \<open>Evaluating the chunk\<close>

lemmas expr_defs = var_def lit_def pure_ev_def bind_ev_def binop_def truediv_def mul_def
  attr_def subscript_def call_def py_getattr_def py_getitem_def py_call_def

lemmas stmt_defs = assign_def expr_stmt_def print_stmt_def import_as_def from_import_def

lemma bayes_hyper_ok:
  assumes "num_truediv (PInt 1) sigma2 = Inr a" and "num_mul big a = Inr a1"
    and "num_truediv (PInt 1) tau = Inr l" and "num_mul big l = Inr l1"
  shows "bayes_hyper sigma2 tau big s =
     (None,
      s\<lparr>env := (env s)(''big_number'' \<mapsto> Num big, ''alpha'' \<mapsto> Num a,
             ''alpha_1'' \<mapsto> Num a1, ''alpha_2'' \<mapsto> Num big,
             ''lam'' \<mapsto> Num l, ''lambda_1'' \<mapsto> Num l1, ''lambda_2'' \<mapsto> Num big),
        reads := reads s @ [''big_number'', ''alpha'', ''big_number'', ''big_number'',
             ''lam'', ''big_number'']\<rparr>)"
  using assms by (simp add: bayes_hyper_def expr_defs stmt_defs bind_res_def)

lemma bayes_hyper_raise1:
  assumes "num_truediv (PInt 1) sigma2 = Inl e"
  shows "bayes_hyper sigma2 tau big s =
     (Some e, s\<lparr>env := (env s)(''big_number'' \<mapsto> Num big)\<rparr>)"
  using assms by (simp add: bayes_hyper_def expr_defs stmt_defs bind_res_def)

lemma bayes_hyper_raise2:
  assumes "num_truediv (PInt 1) sigma2 = Inr a" and "num_mul big a = Inl e"
  shows "bayes_hyper sigma2 tau big s =
     (Some e,
      s\<lparr>env := (env s)(''big_number'' \<mapsto> Num big, ''alpha'' \<mapsto> Num a),
        reads := reads s @ [''big_number'', ''alpha'']\<rparr>)"
  using assms by (simp add: bayes_hyper_def expr_defs stmt_defs bind_res_def)

lemma bayes_hyper_raise3:
  assumes "num_truediv (PInt 1) sigma2 = Inr a" and "num_mul big a = Inr a1"
    and "num_truediv (PInt 1) tau = Inl e"
  shows "bayes_hyper sigma2 tau big s =
     (Some e,
      s\<lparr>env := (env s)(''big_number'' \<mapsto> Num big, ''alpha'' \<mapsto> Num a,
             ''alpha_1'' \<mapsto> Num a1, ''alpha_2'' \<mapsto> Num big),
        reads := reads s @ [''big_number'', ''alpha'', ''big_number'']\<rparr>)"
  using assms by (simp add: bayes_hyper_def expr_defs stmt_defs bind_res_def)

lemma bayes_hyper_raise4:
  assumes "num_truediv (PInt 1) sigma2 = Inr a" and "num_mul big a = Inr a1"
    and "num_truediv (PInt 1) tau = Inr l" and "num_mul big l = Inl e"
  shows "bayes_hyper sigma2 tau big s =
     (Some e,
      s\<lparr>env := (env s)(''big_number'' \<mapsto> Num big, ''alpha'' \<mapsto> Num a,
             ''alpha_1'' \<mapsto> Num a1, ''alpha_2'' \<mapsto> Num big, ''lam'' \<mapsto> Num l),
        reads := reads s @ [''big_number'', ''alpha'', ''big_number'', ''big_number'',
             ''lam'']\<rparr>)"
  using assms by (simp add: bayes_hyper_def expr_defs stmt_defs bind_res_def)

text \<open>The configurator as a function of its three inputs alone.\<close>

lemma configurator_eval:
  "configurator sigma2 tau big s =
     bind_res (num_truediv (PInt 1) sigma2) (\<lambda>a. bind_res (num_mul big a) (\<lambda>a1.
     bind_res (num_truediv (PInt 1) tau) (\<lambda>l. bind_res (num_mul big l) (\<lambda>l1.
       Inr (a1, big, l1, big, a, l)))))"
proof (cases "num_truediv (PInt 1) sigma2")
  case (Inl e)
  then show ?thesis
    by (simp add: configurator_def bayes_hyper_raise1 bind_res_def)
next
  case a: (Inr a)
  show ?thesis
  proof (cases "num_mul big a")
    case (Inl e)
    with a show ?thesis
      by (simp add: configurator_def bayes_hyper_raise2 bind_res_def)
  next
    case a1: (Inr a1)
    show ?thesis
    proof (cases "num_truediv (PInt 1) tau")
      case (Inl e)
      with a a1 show ?thesis
        by (simp add: configurator_def bayes_hyper_raise3 bind_res_def)
    next
      case l: (Inr l)
      show ?thesis
      proof (cases "num_mul big l")
        case (Inl e)
        with a a1 l show ?thesis
          by (simp add: configurator_def bayes_hyper_raise4 bind_res_def)
      next
        case (Inr l1)
        with a a1 l show ?thesis
          by (simp add: configurator_def bayes_hyper_ok outputs_def num_of_def bind_res_def)
      qed
    qed
  qed
qed

lemma bayes_hyper_frame:
  "out (snd (bayes_hyper sigma2 tau big s)) = out s \<and>
   calls (snd (bayes_hyper sigma2 tau big s)) = calls s \<and>
   (x \<notin> {''big_number'', ''alpha'', ''alpha_1'', ''alpha_2'', ''lam'', ''lambda_1'', ''lambda_2''} \<longrightarrow>
      env (snd (bayes_hyper sigma2 tau big s)) x = env s x)"
proof (cases "num_truediv (PInt 1) sigma2")
  case (Inl e)
  then show ?thesis
    by (simp add: bayes_hyper_raise1)
next
  case a: (Inr a)
  show ?thesis
  proof (cases "num_mul big a")
    case (Inl e)
    with a show ?thesis
      by (simp add: bayes_hyper_raise2)
  next
    case a1: (Inr a1)
    show ?thesis
    proof (cases "num_truediv (PInt 1) tau")
      case (Inl e)
      with a a1 show ?thesis
        by (simp add: bayes_hyper_raise3)
    next
      case l: (Inr l)
      show ?thesis
      proof (cases "num_mul big l")
        case (Inl e)
        with a a1 l show ?thesis
          by (simp add: bayes_hyper_raise4)
      next
        case (Inr l1)
        with a a1 l show ?thesis
          by (simp add: bayes_hyper_ok)
      qed
    qed
  qed
qed

section \<open>Division and multiplication on classes of inputs\<close>

lemma rnd_pos_bounds:
  assumes "1 / 2 ^ 1022 \<le> x"
  shows "\<bar>rnd x - x\<bar> \<le> x / 2 ^ 53" and "x / 2 \<le> rnd x" and "rnd x \<le> 2 * x"
proof -
  from assms have pos: "0 < x"
    by (rule less_le_trans [rotated]) simp
  from assms pos have "2 powi (- 1022) \<le> \<bar>x\<bar>"
    by (simp add: power_int_minus divide_simps)
  from rnd_rel [OF this] pos show e: "\<bar>rnd x - x\<bar> \<le> x / 2 ^ 53" by simp
  have "x / 2 ^ 53 \<le> x / 2" using pos by (simp add: divide_simps)
  with e show "x / 2 \<le> rnd x" and "rnd x \<le> 2 * x" by linarith+
qed

lemma to_double_pos:
  assumes "1 / 2 ^ 1022 \<le> x" and "x \<le> 2 ^ 1022"
  shows "to_double neg x = Finite (rnd x)"
proof -
  from assms have pos: "0 < x"
    by (intro less_le_trans [OF _ assms(1)]) simp
  from rnd_pos_bounds(2,3) [OF assms(1)] pos assms(2)
  have "0 < rnd x" and "rnd x \<le> 2 * 2 ^ 1022" by linarith+
  then have "0 < rnd x" and "rnd x < 2 ^ 1024" by simp_all
  then show ?thesis by (simp add: to_double_def Let_def)
qed

lemma int_to_double_one: "int_to_double 1 = Inr (Finite 1)"
  by (simp add: int_to_double_def overflows_def rnd_one)

lemma not_overflows_recip: "\<not> overflows (1 / of_int n)"
proof -
  have "\<bar>1 / real_of_int n\<bar> \<le> 1"
  proof (cases "n = 0")
    case True
    then show ?thesis by simp
  next
    case False
    then have "1 \<le> \<bar>n\<bar>" by linarith
    then have "1 \<le> \<bar>real_of_int n\<bar>" by linarith
    then show ?thesis by (simp add: divide_simps)
  qed
  from rnd_le_one [OF this] show ?thesis by (simp add: overflows_def)
qed

lemma truediv_one_zero: "zero_num v \<Longrightarrow> num_truediv (PInt 1) v = Inl ZeroDivisionError"
  by (cases v) (simp_all add: int_to_double_one bind_res_def)

lemma truediv_one_nonzero: "\<not> zero_num v \<Longrightarrow> \<exists>d. num_truediv (PInt 1) v = Inr (PFloat d)"
  using not_overflows_recip by (cases v) (simp_all add: int_to_double_one bind_res_def)

lemma mul_float_fits: "fits big \<Longrightarrow> \<exists>d'. num_mul big (PFloat d) = Inr (PFloat d')"
  by (cases big) (simp_all add: int_to_double_def overflows_def bind_res_def)

lemma mul_float_overflow: "\<not> fits big \<Longrightarrow> num_mul big (PFloat d) = Inl OverflowError"
  by (cases big) (simp_all add: int_to_double_def overflows_def bind_res_def)

lemma pos_not_zero: "pos_num v \<Longrightarrow> \<not> zero_num v"
  by (cases v rule: pos_num.cases) simp_all

lemma mag_pos: "mag k x \<Longrightarrow> 0 < x"
  unfolding mag_def by (intro less_le_trans [of 0 "1 / 2 ^ k" x]) simp_all

lemma mag_mono: "mag k x \<Longrightarrow> k \<le> j \<Longrightarrow> mag j x"
proof -
  assume m: "mag k x" and kj: "k \<le> j"
  have "(2::real) ^ k \<le> 2 ^ j" using kj by (intro power_increasing) simp_all
  moreover from this have "1 / (2::real) ^ j \<le> 1 / 2 ^ k"
    by (intro divide_left_mono) simp_all
  ultimately show ?thesis using m unfolding mag_def by linarith
qed

lemma mag_mult: "mag k x \<Longrightarrow> mag j y \<Longrightarrow> mag (k + j) (x * y)"
proof -
  assume x: "mag k x" and y: "mag j y"
  note px = mag_pos [OF x] and py = mag_pos [OF y]
  have "1 / 2 ^ k * (1 / 2 ^ j) \<le> x * y"
    using x y px py unfolding mag_def by (intro mult_mono) simp_all
  moreover have "x * y \<le> 2 ^ k * 2 ^ j"
    using x y px py unfolding mag_def by (intro mult_mono) simp_all
  ultimately show ?thesis by (simp add: mag_def power_add)
qed

lemma mag_inverse: "mag k x \<Longrightarrow> mag k (1 / x)"
proof -
  assume x: "mag k x"
  note px = mag_pos [OF x]
  from x px have "1 / x \<le> 2 ^ k"
    by (simp add: mag_def field_simps)
  moreover from x px have "1 / 2 ^ k \<le> 1 / x"
    by (simp add: mag_def field_simps)
  ultimately show ?thesis by (simp add: mag_def)
qed

lemma mag_divide: "mag k x \<Longrightarrow> mag j y \<Longrightarrow> mag (k + j) (x / y)"
  using mag_mult [OF _ mag_inverse, of k x j y] by simp

lemma mag_normal: "mag k x \<Longrightarrow> k \<le> 1022 \<Longrightarrow> 1 / 2 ^ 1022 \<le> x \<and> x \<le> 2 ^ 1022"
  using mag_mono [of k x 1022] by (simp add: mag_def)

lemma mag_rnd:
  assumes "mag k x" and "k \<le> 1022"
  shows "mag (Suc k) (rnd x)" and "\<bar>rnd x - x\<bar> \<le> x / 2 ^ 53"
    and "to_double neg x = Finite (rnd x)"
proof -
  from mag_normal [OF assms] have n: "1 / 2 ^ 1022 \<le> x" "x \<le> 2 ^ 1022" by simp_all
  from rnd_pos_bounds [OF n(1)] show "\<bar>rnd x - x\<bar> \<le> x / 2 ^ 53" by simp
  from to_double_pos [OF n] show "to_double neg x = Finite (rnd x)" .
  from assms(1) have "1 / 2 ^ k / 2 \<le> x / 2" and "2 * x \<le> 2 * 2 ^ k"
    unfolding mag_def by simp_all
  with rnd_pos_bounds(2,3) [OF n(1)]
  have "1 / 2 ^ k / 2 \<le> rnd x" and "rnd x \<le> 2 * 2 ^ k"
    by linarith+
  then show "mag (Suc k) (rnd x)" by (simp add: mag_def)
qed

lemma moderate_rv: "moderate v \<Longrightarrow> mag 300 (rv v)"
proof (cases v)
  case (PInt n)
  assume "moderate v"
  with PInt have "1 \<le> n" and "n \<le> 2 ^ 300" by simp_all
  then have "1 \<le> real_of_int n" and "real_of_int n \<le> 2 ^ 300"
    by (simp_all add: of_int_le_numeral_power_cancel_iff)
  moreover have "1 / (2::real) ^ 300 \<le> 1" by simp
  ultimately show ?thesis using PInt unfolding mag_def by simp
next
  case (PFloat d)
  assume "moderate v"
  with PFloat show ?thesis by (cases d) (simp_all add: mag_def)
qed

lemma moderate_recip:
  assumes "moderate v"
  shows "num_truediv (PInt 1) v = Inr (PFloat (Finite (rnd (1 / rv v))))"
proof -
  from mag_inverse [OF moderate_rv [OF assms]] have m: "mag 300 (1 / rv v)" .
  show ?thesis
  proof (cases v)
    case (PInt n)
    with assms have "n \<noteq> 0" by auto
    with PInt m mag_rnd(3) [OF m] not_overflows_recip [of n] show ?thesis
      by simp
  next
    case (PFloat d)
    with assms obtain x where d: "d = Finite x" by (cases d) simp_all
    with PFloat m have "0 < x" using mag_pos [OF moderate_rv [OF assms]] by simp
    with PFloat d m mag_rnd(3) [OF m] show ?thesis
      by (simp add: int_to_double_one bind_res_def ddiv_def)
  qed
qed

lemma moderate_as_double:
  assumes "moderate v"
  shows "\<exists>b. as_double v = Inr (Finite b) \<and> mag 301 b \<and> \<bar>b - rv v\<bar> \<le> rv v / 2 ^ 53"
proof -
  note m = moderate_rv [OF assms]
  show ?thesis
  proof (cases v)
    case (PInt n)
    from mag_rnd(1) [OF m] have "mag 301 (rnd (rv v))" by simp
    moreover from this have "\<not> overflows (rv v)"
      using mag_normal [of 301 "rnd (rv v)"] mag_pos [of 301 "rnd (rv v)"]
      by (simp add: overflows_def)
    ultimately show ?thesis using PInt mag_rnd(2) [OF m]
      by (simp add: int_to_double_def)
  next
    case (PFloat d)
    with assms obtain x where d: "d = Finite x" by (cases d) simp_all
    with PFloat m mag_mono [OF m, of 301] mag_pos [OF m] show ?thesis by simp
  qed
qed

lemma mul_finite:
  assumes "as_double big = Inr (Finite b)" and "mag k (b * a)" and "k \<le> 1022"
  shows "num_mul big (PFloat (Finite a)) = Inr (PFloat (Finite (rnd (b * a))))"
  using assms mag_rnd(3) [OF assms(2,3)]
  by (cases big) (simp_all add: bind_res_def dmul_def)

lemma div_finite:
  assumes "as_double big = Inr (Finite b)" and "b \<noteq> 0" and "mag k (p / b)" and "k \<le> 1022"
  shows "num_truediv (PFloat (Finite p)) big = Inr (PFloat (Finite (rnd (p / b))))"
  using assms mag_rnd(3) [OF assms(3,4)]
  by (cases big) (simp_all add: bind_res_def ddiv_def)

text \<open>
  One precision and its shape in the ordinary range: every operation is a correctly
  rounded exact operation, each within a relative \<open>2\<^sup>-\<^sup>5\<^sup>3\<close>.
\<close>

lemma moderate_pipeline:
  assumes "moderate v" and "moderate big"
  shows "\<exists>a b a1 ra.
     num_truediv (PInt 1) v = Inr (PFloat (Finite a)) \<and>
     as_double big = Inr (Finite b) \<and>
     num_mul big (PFloat (Finite a)) = Inr (PFloat (Finite a1)) \<and>
     num_truediv (PFloat (Finite a1)) big = Inr (PFloat (Finite ra)) \<and>
     0 < a \<and> 0 < b \<and> 0 < a1 \<and>
     \<bar>a - 1 / rv v\<bar> \<le> 1 / rv v / 2 ^ 53 \<and>
     \<bar>b - rv big\<bar> \<le> rv big / 2 ^ 53 \<and>
     \<bar>a1 - b * a\<bar> \<le> b * a / 2 ^ 53 \<and>
     \<bar>ra - a1 / b\<bar> \<le> a1 / b / 2 ^ 53"
proof -
  let ?t = "1 / rv v"
  let ?a = "rnd ?t"
  from mag_inverse [OF moderate_rv [OF assms(1)]] have t: "mag 300 ?t" .
  from mag_rnd(1,2) [OF t] have a: "mag 301 ?a" "\<bar>?a - ?t\<bar> \<le> ?t / 2 ^ 53" by simp_all
  from moderate_as_double [OF assms(2)] obtain b where
    b: "as_double big = Inr (Finite b)" "mag 301 b" "\<bar>b - rv big\<bar> \<le> rv big / 2 ^ 53"
    by blast
  let ?a1 = "rnd (b * ?a)"
  from mag_mult [OF b(2) a(1)] have p: "mag 602 (b * ?a)" by simp
  from mag_rnd(1,2) [OF p] have a1: "mag 603 ?a1" "\<bar>?a1 - b * ?a\<bar> \<le> b * ?a / 2 ^ 53"
    by simp_all
  from mag_divide [OF a1(1) b(2)] have q: "mag 904 (?a1 / b)" by simp
  from mag_rnd(2) [OF q] have ra: "\<bar>rnd (?a1 / b) - ?a1 / b\<bar> \<le> ?a1 / b / 2 ^ 53" by simp
  have "num_truediv (PInt 1) v = Inr (PFloat (Finite ?a))"
    by (rule moderate_recip [OF assms(1)])
  moreover have "num_mul big (PFloat (Finite ?a)) = Inr (PFloat (Finite ?a1))"
    by (rule mul_finite [OF b(1) p]) simp
  moreover have "num_truediv (PFloat (Finite ?a1)) big = Inr (PFloat (Finite (rnd (?a1 / b))))"
    using mag_pos [OF b(2)] by (intro div_finite [OF b(1) _ q]) simp_all
  ultimately show ?thesis
    using a(2) b(1,3) a1(2) ra mag_pos [OF a(1)] mag_pos [OF b(2)] mag_pos [OF a1(1)]
    by blast
qed

section \<open>Evaluating the other cells\<close>

lemma block_append:
  "block (xs @ ys) s =
     (case block xs s of (None, s') \<Rightarrow> block ys s' | (Some err, s') \<Rightarrow> (Some err, s'))"
  by (induction xs arbitrary: s) (auto split: prod.splits option.splits)

lemma cell_data_eval:
  assumes "b = Call (Attr (Lib ''sklearn.datasets'') ''load_boston'') [] []"
  shows "cell_data s =
     (None,
      s\<lparr>env := (env s)(''np'' \<mapsto> Lib ''numpy'', ''plt'' \<mapsto> Lib ''matplotlib.pyplot'',
             ''sns'' \<mapsto> Lib ''seaborn'', ''datasets'' \<mapsto> Lib ''sklearn.datasets'',
             ''boston'' \<mapsto> b, ''X_train'' \<mapsto> Item b (Str ''data''),
             ''y_train'' \<mapsto> Item b (Str ''target'')),
        calls := calls s @ [b],
        reads := reads s @ [''datasets'', ''boston'', ''boston'']\<rparr>)"
  using assms by (simp add: cell_data_def expr_defs stmt_defs)

lemma cell_regularized_eval:
  assumes "env s ''X_train'' = Some x" and "env s ''y_train'' = Some y"
    and "rm = Call (Lib ''sklearn.linear_model.Ridge'') [] [(''alpha'', Num (PInt 1))]"
    and "lm = Call (Lib ''sklearn.linear_model.Lasso'') [] [(''alpha'', Num (PInt 1))]"
  shows "cell_regularized s =
     (None,
      s\<lparr>env := (env s)(''Ridge'' \<mapsto> Lib ''sklearn.linear_model.Ridge'',
             ''Lasso'' \<mapsto> Lib ''sklearn.linear_model.Lasso'', ''alpha'' \<mapsto> Num (PInt 1),
             ''ridge_model'' \<mapsto> rm, ''lasso_model'' \<mapsto> lm),
        calls := calls s @ [rm, Call (Attr rm ''fit'') [x, y] [],
                            lm, Call (Attr lm ''fit'') [x, y] []],
        reads := reads s @ [''Ridge'', ''alpha'', ''ridge_model'', ''X_train'', ''y_train'',
                            ''Lasso'', ''alpha'', ''lasso_model'', ''X_train'', ''y_train'']\<rparr>)"
  using assms by (simp add: cell_regularized_def expr_defs stmt_defs)

lemma cell_cv_eval:
  assumes "env s ''X_train'' = Some x" and "env s ''y_train'' = Some y"
    and "al = ListV [Num (float_lit (1 / 100)), Num (PInt 1), Num (PInt 100)]"
    and "rm = Call (Lib ''sklearn.linear_model.RidgeCV'') [] [(''alphas'', al)]"
    and "lm = Call (Lib ''sklearn.linear_model.LassoCV'') [] [(''alphas'', al)]"
  shows "cell_cv s =
     (None,
      s\<lparr>env := (env s)(''RidgeCV'' \<mapsto> Lib ''sklearn.linear_model.RidgeCV'',
             ''LassoCV'' \<mapsto> Lib ''sklearn.linear_model.LassoCV'', ''alphas'' \<mapsto> al,
             ''ridgeCV_model'' \<mapsto> rm, ''lassoCV_model'' \<mapsto> lm),
        calls := calls s @ [rm, Call (Attr rm ''fit'') [x, y] [],
                            lm, Call (Attr lm ''fit'') [x, y] []],
        reads := reads s @ [''RidgeCV'', ''alphas'', ''ridgeCV_model'', ''X_train'', ''y_train'',
                            ''LassoCV'', ''alphas'', ''lassoCV_model'', ''X_train'', ''y_train'']\<rparr>)"
  using assms by (simp add: cell_cv_def expr_defs stmt_defs)

lemma cell_report_eval:
  assumes "env s ''ridgeCV'' = None"
  shows "cell_report s = (Some (NameError ''ridgeCV''), s\<lparr>reads := reads s @ [''ridgeCV'']\<rparr>)"
  using assms by (simp add: cell_report_def expr_defs stmt_defs)

lemma cell_bayes_eval:
  assumes "env s ''X_train'' = Some x" and "env s ''y_train'' = Some y"
    and "m = Call (Lib ''sklearn.linear_model.BayesianRidge'') [] []"
  shows "cell_bayes s =
     (None,
      s\<lparr>env := (env s)(''BayesianRidge'' \<mapsto> Lib ''sklearn.linear_model.BayesianRidge'',
             ''bayes_model'' \<mapsto> m),
        calls := calls s @ [m, Call (Attr m ''fit'') [x, y] []],
        reads := reads s @ [''BayesianRidge'', ''bayes_model'', ''X_train'', ''y_train'']\<rparr>)"
  using assms by (simp add: cell_bayes_def expr_defs stmt_defs)

lemma prelude_eval:
  "\<exists>s'. block [cell_data, cell_regularized, cell_cv] s = (None, s') \<and>
     out s' = out s \<and>
     env s' ''ridgeCV'' = env s ''ridgeCV'' \<and> env s' ''lassoCV'' = env s ''lassoCV'' \<and>
     env s' ''ridgeCV_model'' =
       Some (Call (Lib ''sklearn.linear_model.RidgeCV'') []
         [(''alphas'', ListV [Num (float_lit (1 / 100)), Num (PInt 1), Num (PInt 100)])]) \<and>
     env s' ''lassoCV_model'' =
       Some (Call (Lib ''sklearn.linear_model.LassoCV'') []
         [(''alphas'', ListV [Num (float_lit (1 / 100)), Num (PInt 1), Num (PInt 100)])])"
proof -
  obtain s1 where s1: "cell_data s = (None, s1)" "out s1 = out s"
    "env s1 ''ridgeCV'' = env s ''ridgeCV''" "env s1 ''lassoCV'' = env s ''lassoCV''"
    "env s1 ''X_train'' =
       Some (Item (Call (Attr (Lib ''sklearn.datasets'') ''load_boston'') [] []) (Str ''data''))"
    "env s1 ''y_train'' =
       Some (Item (Call (Attr (Lib ''sklearn.datasets'') ''load_boston'') [] []) (Str ''target''))"
    by (simp add: cell_data_eval [OF refl])
  obtain s2 where s2: "cell_regularized s1 = (None, s2)" "out s2 = out s1"
    "env s2 ''ridgeCV'' = env s1 ''ridgeCV''" "env s2 ''lassoCV'' = env s1 ''lassoCV''"
    "env s2 ''X_train'' = env s1 ''X_train''" "env s2 ''y_train'' = env s1 ''y_train''"
    by (simp add: cell_regularized_eval [OF s1(5,6) refl refl])
  obtain s3 where s3: "cell_cv s2 = (None, s3)" "out s3 = out s2"
    "env s3 ''ridgeCV'' = env s2 ''ridgeCV''" "env s3 ''lassoCV'' = env s2 ''lassoCV''"
    "env s3 ''ridgeCV_model'' =
       Some (Call (Lib ''sklearn.linear_model.RidgeCV'') []
         [(''alphas'', ListV [Num (float_lit (1 / 100)), Num (PInt 1), Num (PInt 100)])])"
    "env s3 ''lassoCV_model'' =
       Some (Call (Lib ''sklearn.linear_model.LassoCV'') []
         [(''alphas'', ListV [Num (float_lit (1 / 100)), Num (PInt 1), Num (PInt 100)])])"
    using s2(5,6) s1(5,6) by (simp add: cell_cv_eval [OF _ _ refl refl refl])
  have "block [cell_data, cell_regularized, cell_cv] s = (None, s3)"
    by (simp add: s1(1) s2(1) s3(1))
  with s1 s2 s3 show ?thesis by simp
qed

lemma loaded_env:
  "env loaded ''BayesianRidge'' = Some (Lib ''sklearn.linear_model.BayesianRidge'')"
  "env loaded ''X_train'' =
     Some (Item (Call (Attr (Lib ''sklearn.datasets'') ''load_boston'') [] []) (Str ''data''))"
  "env loaded ''y_train'' =
     Some (Item (Call (Attr (Lib ''sklearn.datasets'') ''load_boston'') [] []) (Str ''target''))"
proof -
  obtain s1 where s1: "cell_data fresh = (None, s1)"
    "env s1 ''X_train'' =
       Some (Item (Call (Attr (Lib ''sklearn.datasets'') ''load_boston'') [] []) (Str ''data''))"
    "env s1 ''y_train'' =
       Some (Item (Call (Attr (Lib ''sklearn.datasets'') ''load_boston'') [] []) (Str ''target''))"
    by (simp add: cell_data_eval [OF refl])
  have l: "loaded = snd (cell_bayes s1)"
    by (simp add: loaded_def s1(1) split: prod.splits option.splits)
  show "env loaded ''BayesianRidge'' = Some (Lib ''sklearn.linear_model.BayesianRidge'')"
    and "env loaded ''X_train'' =
     Some (Item (Call (Attr (Lib ''sklearn.datasets'') ''load_boston'') [] []) (Str ''data''))"
    and "env loaded ''y_train'' =
     Some (Item (Call (Attr (Lib ''sklearn.datasets'') ''load_boston'') [] []) (Str ''target''))"
    by (simp_all add: l cell_bayes_eval [OF s1(2,3) refl] s1(2,3))
qed

section \<open>Lemmas for the claims\<close>

lemma bayes_chunk_ok:
  "bayes_hyper sigma2 tau big s = (None, s') \<Longrightarrow> bayes_chunk sigma2 tau big s = bayes_fit s'"
  by (simp add: bayes_chunk_def split: prod.splits option.splits)

lemma bayes_hyper_outcome:
  "fst (bayes_hyper sigma2 tau big s) =
     (case configurator sigma2 tau big s of Inl e \<Rightarrow> Some e | Inr t \<Rightarrow> None)"
proof (cases "num_truediv (PInt 1) sigma2")
  case (Inl e)
  then show ?thesis
    by (simp add: configurator_eval bayes_hyper_raise1 bind_res_def)
next
  case a: (Inr a)
  show ?thesis
  proof (cases "num_mul big a")
    case (Inl e)
    with a show ?thesis
      by (simp add: configurator_eval bayes_hyper_raise2 bind_res_def)
  next
    case a1: (Inr a1)
    show ?thesis
    proof (cases "num_truediv (PInt 1) tau")
      case (Inl e)
      with a a1 show ?thesis
        by (simp add: configurator_eval bayes_hyper_raise3 bind_res_def)
    next
      case l: (Inr l)
      show ?thesis
      proof (cases "num_mul big l")
        case (Inl e)
        with a a1 l show ?thesis
          by (simp add: configurator_eval bayes_hyper_raise4 bind_res_def)
      next
        case (Inr l1)
        with a a1 l show ?thesis
          by (simp add: configurator_eval bayes_hyper_ok bind_res_def)
      qed
    qed
  qed
qed

lemma bayes_chunk_raise:
  assumes "configurator sigma2 tau big s = Inl e"
  shows "bayes_chunk sigma2 tau big s = bayes_hyper sigma2 tau big s"
    and "fst (bayes_hyper sigma2 tau big s) = Some e"
proof -
  from assms show e: "fst (bayes_hyper sigma2 tau big s) = Some e"
    by (simp add: bayes_hyper_outcome)
  then show "bayes_chunk sigma2 tau big s = bayes_hyper sigma2 tau big s"
    by (cases "bayes_hyper sigma2 tau big s") (simp add: bayes_chunk_def)
qed

lemma bayes_fit_eval:
  assumes "env s ''BayesianRidge'' = Some cls" and "is_object cls"
    and "env s ''alpha_1'' = Some a1" and "env s ''alpha_2'' = Some a2"
    and "env s ''alpha'' = Some a"
    and "env s ''lambda_1'' = Some l1" and "env s ''lambda_2'' = Some l2"
    and "env s ''lam'' = Some l"
    and "env s ''X_train'' = Some x" and "env s ''y_train'' = Some y"
    and "m = Call cls []
        [(''alpha_1'', a1), (''alpha_2'', a2), (''alpha_init'', a),
         (''lambda_1'', l1), (''lambda_2'', l2), (''lambda_init'', l)]"
  shows "bayes_fit s =
     (None,
      s\<lparr>env := (env s)(''bayes_model'' \<mapsto> m),
        calls := calls s @ [m, Call (Attr m ''fit'') [x, y] []],
        reads := reads s @ [''BayesianRidge'', ''alpha_1'', ''alpha_2'', ''alpha'',
          ''lambda_1'', ''lambda_2'', ''lam'', ''bayes_model'', ''X_train'', ''y_train'']\<rparr>)"
  using assms by (simp add: bayes_fit_def expr_defs stmt_defs)

lemma positive_run:
  assumes "pos_num sigma2" and "pos_num tau" and "pos_num big" and "fits big"
  shows "\<exists>a l a1 l1.
     num_truediv (PInt 1) sigma2 = Inr (PFloat a) \<and> num_truediv (PInt 1) tau = Inr (PFloat l) \<and>
     num_mul big (PFloat a) = Inr (PFloat a1) \<and> num_mul big (PFloat l) = Inr (PFloat l1)"
proof -
  from truediv_one_nonzero [OF pos_not_zero [OF assms(1)]]
  obtain a where a: "num_truediv (PInt 1) sigma2 = Inr (PFloat a)" by blast
  from truediv_one_nonzero [OF pos_not_zero [OF assms(2)]]
  obtain l where l: "num_truediv (PInt 1) tau = Inr (PFloat l)" by blast
  from mul_float_fits [OF assms(4)] obtain a1 where "num_mul big (PFloat a) = Inr (PFloat a1)"
    by blast
  moreover from mul_float_fits [OF assms(4)] obtain l1 where
    "num_mul big (PFloat l) = Inr (PFloat l1)"
    by blast
  ultimately show ?thesis using a l by blast
qed



lemma variance_arith:
  fixes a B1 B2 p1 p2 a1 a2 :: real
  assumes "0 < a" and "0 < B1" and "0 < B2" and "0 < p1" and "0 < p2"
    and "\<bar>p1 - B1\<bar> \<le> B1 / 2 ^ 53" and "\<bar>a1 - p1 * a\<bar> \<le> p1 * a / 2 ^ 53"
    and "\<bar>p2 - B2\<bar> \<le> B2 / 2 ^ 53" and "\<bar>a2 - p2 * a\<bar> \<le> p2 * a / 2 ^ 53"
    and "B1 * (1 + 1 / 2 ^ 48) \<le> B2"
  shows "a2 / B2 ^ 2 < a1 / B1 ^ 2"
proof -
  define u :: real where "u = 1 / 2 ^ 53"
  have u: "0 < u" "u < 1" by (simp_all add: u_def)
  have num: "(1 + u) ^ 2 < (1 - u) ^ 2 * (1 + 1 / 2 ^ 48)"
    by (simp add: u_def power2_eq_square)
  have dist: "x * (1 - u) = x - x / 2 ^ 53" "x * (1 + u) = x + x / 2 ^ 53" for x :: real
    by (simp_all add: u_def algebra_simps)
  have lo1: "B1 * (1 - u) \<le> p1" unfolding dist using assms(6) by linarith
  have "p1 * a * (1 - u) \<le> a1" unfolding dist using assms(7) by linarith
  moreover have "B1 * (1 - u) * a * (1 - u) \<le> p1 * a * (1 - u)"
    using lo1 assms(1) u by (intro mult_right_mono) simp_all
  ultimately have low: "B1 * a * (1 - u) ^ 2 \<le> a1"
    by (simp add: power2_eq_square mult_ac)
  have hi2: "p2 \<le> B2 * (1 + u)" unfolding dist using assms(8) by linarith
  have "a2 \<le> p2 * a * (1 + u)" unfolding dist using assms(9) by linarith
  moreover have "p2 * a * (1 + u) \<le> B2 * (1 + u) * a * (1 + u)"
    using hi2 assms(1) u by (intro mult_right_mono) simp_all
  ultimately have high: "a2 \<le> B2 * a * (1 + u) ^ 2"
    by (simp add: power2_eq_square mult_ac)
  have "a2 / B2 ^ 2 \<le> B2 * a * (1 + u) ^ 2 / B2 ^ 2"
    using high by (intro divide_right_mono) simp_all
  also have "\<dots> = a * (1 + u) ^ 2 / B2"
    using assms(3) by (simp add: power2_eq_square)
  also have "\<dots> < a * (1 - u) ^ 2 / B1"
  proof -
    have "(1 + u) ^ 2 * B1 < (1 - u) ^ 2 * (1 + 1 / 2 ^ 48) * B1"
      using num assms(2) by (intro mult_strict_right_mono)
    also have "\<dots> = (1 - u) ^ 2 * (B1 * (1 + 1 / 2 ^ 48))" by (simp add: mult_ac)
    also have "\<dots> \<le> (1 - u) ^ 2 * B2"
      using assms(10) by (intro mult_left_mono) simp_all
    finally have "(1 + u) ^ 2 * B1 < (1 - u) ^ 2 * B2" .
    then have "(1 + u) ^ 2 / B2 < (1 - u) ^ 2 / B1"
      using assms(2,3) by (simp add: field_simps)
    then have "a * ((1 + u) ^ 2 / B2) < a * ((1 - u) ^ 2 / B1)"
      using assms(1) by (intro mult_strict_left_mono)
    then show ?thesis by simp
  qed
  also have "\<dots> = B1 * a * (1 - u) ^ 2 / B1 ^ 2"
    using assms(2) by (simp add: power2_eq_square)
  also have "\<dots> \<le> a1 / B1 ^ 2"
    using low by (intro divide_right_mono) simp_all
  finally show ?thesis .
qed

lemma moderate_product:
  assumes "moderate v" and "moderate big"
  shows "\<exists>a p a1.
     num_truediv (PInt 1) v = Inr (PFloat (Finite a)) \<and>
     num_mul big (PFloat (Finite a)) = Inr (PFloat (Finite a1)) \<and>
     0 < a \<and> 0 < p \<and> 0 < rv big \<and>
     \<bar>p - rv big\<bar> \<le> rv big / 2 ^ 53 \<and> \<bar>a1 - p * a\<bar> \<le> p * a / 2 ^ 53"
  using moderate_pipeline [OF assms] mag_pos [OF moderate_rv [OF assms(2)]] by blast

text \<open>The notebook's own numbers, each operation evaluated.\<close>

lemma script_values:
  "float_lit (118 / 10) = PFloat (Finite (3321404725185741 / 2 ^ 48))"
  "num_truediv (PInt 1) (PFloat (Finite (3321404725185741 / 2 ^ 48))) =
     Inr (PFloat (Finite (381660985370381 / 2 ^ 52)))"
  "num_mul (PInt (10 ^ 5)) (PFloat (Finite (381660985370381 / 2 ^ 52))) =
     Inr (PFloat (Finite (2329473787661017 / 2 ^ 38)))"
  "num_truediv (PInt 1) (PInt 10) = Inr (PFloat (Finite (3602879701896397 / 2 ^ 55)))"
  "float_lit (1 / 10) = PFloat (Finite (3602879701896397 / 2 ^ 55))"
  "num_mul (PInt (10 ^ 5)) (PFloat (Finite (3602879701896397 / 2 ^ 55))) =
     Inr (PFloat (Finite 10000))"
  by (simp_all add: num_eval)

lemma fits_script: "fits (PInt (10 ^ 5))"
  by (simp add: rnd_eval)

text \<open>An int beyond the doubles: \<open>10\<^sup>3\<^sup>0\<^sup>9\<close> rounds to at least its half, above \<open>2\<^sup>1\<^sup>0\<^sup>2\<^sup>4\<close>.\<close>

lemma not_fits_huge: "\<not> fits (PInt (10 ^ 309))"
proof -
  have "(1::real) / 2 ^ 1022 \<le> 10 ^ 309" by simp
  from rnd_pos_bounds(2) [OF this] have "(10::real) ^ 309 / 2 \<le> rnd (10 ^ 309)" .
  moreover have "(2::real) ^ 1024 \<le> 10 ^ 309 / 2" by simp
  ultimately have "(2::real) ^ 1024 \<le> rnd (10 ^ 309)" by linarith
  then show ?thesis by simp
qed

lemma quarter: "num_truediv (PInt 1) (PInt 4) = Inr (PFloat (Finite (1 / 4)))"
  by (simp add: num_eval)

section \<open>The fixed-precision configurator\<close>




text \<open>
  C3 (computation definition), as the specification states it, fails on the notebook for
  a confidence scale that is positive but too large for a double: with
  \<open>big_number = 10\<^sup>3\<^sup>0\<^sup>9\<close>, an int, the product \<^verbatim>\<open>big_number*alpha\<close> raises
  \<^verbatim>\<open>OverflowError\<close> and no six values are produced.
\<close>

theorem overflow_counterexample:
  "configurator (PInt 4) (PInt 8) (PInt (10 ^ 309)) fresh = Inl OverflowError"
  unfolding configurator_eval quarter
  using mul_float_overflow [OF not_fits_huge, of "Finite (1 / 4)"]
  by (simp add: bind_res_def del: num_mul.simps)

text \<open>
  C3, amended. For strictly positive \<open>sigma2\<close>, \<open>tau\<close> and confidence scale, the confidence
  scale being a float or an int that converts to a double, the six values read off after
  the chunk are \<open>alpha = 1 / sigma2\<close> and \<open>lam = 1 / tau\<close> by Python's division,
  \<open>alpha_1 = big * alpha\<close> and \<open>lambda_1 = big * lam\<close> by Python's multiplication, and
  \<open>alpha_2 = lambda_2 = big\<close>. When \<^verbatim>\<open>BayesianRidge\<close>, \<^verbatim>\<open>X_train\<close> and \<^verbatim>\<open>y_train\<close> are bound,
  the whole chunk completes; it calls the constructor with the first four under their own
  keywords and the last two as \<^verbatim>\<open>alpha_init\<close> and \<^verbatim>\<open>lambda_init\<close>, binds the result to
  \<^verbatim>\<open>bayes_model\<close>, and calls its \<^verbatim>\<open>fit\<close> on \<^verbatim>\<open>X_train\<close> and \<^verbatim>\<open>y_train\<close>; these are the only
  two calls.
\<close>

theorem computation_definition:
  assumes "pos_num sigma2" and "pos_num tau" and "pos_num big" and "fits big"
    and "env s ''BayesianRidge'' = Some cls" and "is_object cls"
    and "env s ''X_train'' = Some x" and "env s ''y_train'' = Some y"
  shows "\<exists>a l a1 l1 m.
     num_truediv (PInt 1) sigma2 = Inr a \<and> num_truediv (PInt 1) tau = Inr l \<and>
     num_mul big a = Inr a1 \<and> num_mul big l = Inr l1 \<and>
     configurator sigma2 tau big s = Inr (a1, big, l1, big, a, l) \<and>
     m = Call cls []
       [(''alpha_1'', Num a1), (''alpha_2'', Num big), (''alpha_init'', Num a),
        (''lambda_1'', Num l1), (''lambda_2'', Num big), (''lambda_init'', Num l)] \<and>
     fst (bayes_chunk sigma2 tau big s) = None \<and>
     env (snd (bayes_chunk sigma2 tau big s)) ''bayes_model'' = Some m \<and>
     calls (snd (bayes_chunk sigma2 tau big s)) =
       calls s @ [m, Call (Attr m ''fit'') [x, y] []]"
proof -
  from positive_run [OF assms(1-4)] obtain a l a1 l1 where
    r: "num_truediv (PInt 1) sigma2 = Inr (PFloat a)" "num_mul big (PFloat a) = Inr (PFloat a1)"
      "num_truediv (PInt 1) tau = Inr (PFloat l)" "num_mul big (PFloat l) = Inr (PFloat l1)"
    by blast
  let ?m = "Call cls []
       [(''alpha_1'', Num (PFloat a1)), (''alpha_2'', Num big), (''alpha_init'', Num (PFloat a)),
        (''lambda_1'', Num (PFloat l1)), (''lambda_2'', Num big),
        (''lambda_init'', Num (PFloat l))]"
  note h = bayes_hyper_ok [OF r, of s]
  let ?s = "snd (bayes_hyper sigma2 tau big s)"
  have fit: "bayes_fit ?s =
     (None,
      ?s\<lparr>env := (env ?s)(''bayes_model'' \<mapsto> ?m),
        calls := calls ?s @ [?m, Call (Attr ?m ''fit'') [x, y] []],
        reads := reads ?s @ [''BayesianRidge'', ''alpha_1'', ''alpha_2'', ''alpha'',
          ''lambda_1'', ''lambda_2'', ''lam'', ''bayes_model'', ''X_train'', ''y_train'']\<rparr>)"
    using assms(5-8) by (intro bayes_fit_eval) (simp_all add: h)
  have chunk: "bayes_chunk sigma2 tau big s = bayes_fit ?s"
    by (rule bayes_chunk_ok) (simp add: h)
  have "configurator sigma2 tau big s = Inr (PFloat a1, big, PFloat l1, big, PFloat a, PFloat l)"
    using r by (simp add: configurator_eval bind_res_def)
  moreover have "fst (bayes_chunk sigma2 tau big s) = None"
    and "env (snd (bayes_chunk sigma2 tau big s)) ''bayes_model'' = Some ?m"
    and "calls (snd (bayes_chunk sigma2 tau big s)) =
       calls s @ [?m, Call (Attr ?m ''fit'') [x, y] []]"
    by (simp_all add: chunk fit) (simp add: h)
  ultimately show ?thesis using r by blast
qed

theorem computation_definition_witness:
  "pos_num (float_lit (118 / 10)) \<and> pos_num (PInt 10) \<and> pos_num (PInt (10 ^ 5)) \<and>
   fits (PInt (10 ^ 5)) \<and>
   env loaded ''BayesianRidge'' = Some (Lib ''sklearn.linear_model.BayesianRidge'') \<and>
   is_object (Lib ''sklearn.linear_model.BayesianRidge'') \<and>
   (\<exists>a l a1 l1 m.
     num_truediv (PInt 1) (float_lit (118 / 10)) = Inr a \<and>
     num_truediv (PInt 1) (PInt 10) = Inr l \<and>
     num_mul (PInt (10 ^ 5)) a = Inr a1 \<and> num_mul (PInt (10 ^ 5)) l = Inr l1 \<and>
     configurator (float_lit (118 / 10)) (PInt 10) (PInt (10 ^ 5)) loaded =
       Inr (a1, PInt (10 ^ 5), l1, PInt (10 ^ 5), a, l) \<and>
     m = Call (Lib ''sklearn.linear_model.BayesianRidge'') []
       [(''alpha_1'', Num a1), (''alpha_2'', Num (PInt (10 ^ 5))), (''alpha_init'', Num a),
        (''lambda_1'', Num l1), (''lambda_2'', Num (PInt (10 ^ 5))),
        (''lambda_init'', Num l)] \<and>
     fst (bayes_chunk (float_lit (118 / 10)) (PInt 10) (PInt (10 ^ 5)) loaded) = None \<and>
     env (snd (bayes_chunk (float_lit (118 / 10)) (PInt 10) (PInt (10 ^ 5)) loaded))
       ''bayes_model'' = Some m)"
proof -
  have h1: "pos_num (float_lit (118 / 10))"
    unfolding script_values(1) by simp
  have h2: "pos_num (PInt 10)" and h3: "pos_num (PInt (10 ^ 5))"
    by simp_all
  have h6: "is_object (Lib ''sklearn.linear_model.BayesianRidge'')"
    by simp
  from computation_definition
    [OF h1 h2 h3 fits_script loaded_env(1) h6 loaded_env(2) loaded_env(3)]
    h1 h2 h3 h6 fits_script loaded_env(1)
  show ?thesis
    by blast
qed

text \<open>
  C5 (exact rate components), as the specification states it, fails on the notebook for
  the same confidence scale: with \<open>big_number = 10\<^sup>3\<^sup>0\<^sup>9\<close> the chunk raises at
  \<^verbatim>\<open>alpha_1 = big_number*alpha\<close>, before \<^verbatim>\<open>alpha_2\<close> and \<^verbatim>\<open>lambda_2\<close> are bound.
\<close>

theorem rates_unbound_counterexample:
  "fst (bayes_hyper (PInt 4) (PInt 8) (PInt (10 ^ 309)) fresh) = Some OverflowError \<and>
   env (snd (bayes_hyper (PInt 4) (PInt 8) (PInt (10 ^ 309)) fresh)) ''alpha_2'' = None \<and>
   env (snd (bayes_hyper (PInt 4) (PInt 8) (PInt (10 ^ 309)) fresh)) ''lambda_2'' = None"
proof -
  from bayes_hyper_raise2 [OF quarter mul_float_overflow [OF not_fits_huge]] show ?thesis
    by (simp add: fresh_def)
qed

text \<open>
  C5, amended. For strictly positive \<open>sigma2\<close>, \<open>tau\<close> and confidence scale, the confidence
  scale being a float or an int that converts to a double, the chunk completes from any
  state and the second and the fourth output, \<open>alpha_2\<close> and \<open>lambda_2\<close>, are the
  confidence scale itself, unrounded.
\<close>

theorem exact_rates:
  assumes "pos_num sigma2" and "pos_num tau" and "pos_num big" and "fits big"
  shows "\<exists>a1 l1 a l. configurator sigma2 tau big s = Inr (a1, big, l1, big, a, l)"
proof -
  from positive_run [OF assms] obtain a l a1 l1 where
    "num_truediv (PInt 1) sigma2 = Inr (PFloat a)" "num_mul big (PFloat a) = Inr (PFloat a1)"
    "num_truediv (PInt 1) tau = Inr (PFloat l)" "num_mul big (PFloat l) = Inr (PFloat l1)"
    by blast
  then show ?thesis by (simp add: configurator_eval bind_res_def)
qed

theorem exact_rates_witness:
  "pos_num (PInt 3) \<and> pos_num (PInt 8) \<and> pos_num (PInt (10 ^ 5)) \<and> fits (PInt (10 ^ 5)) \<and>
   (\<exists>a1 l1 a l.
      configurator (PInt 3) (PInt 8) (PInt (10 ^ 5)) fresh =
        Inr (a1, PInt (10 ^ 5), l1, PInt (10 ^ 5), a, l))"
proof -
  have h1: "pos_num (PInt 3)" and h2: "pos_num (PInt 8)" and h3: "pos_num (PInt (10 ^ 5))"
    by simp_all
  from exact_rates [OF h1 h2 h3 fits_script, of fresh] h1 h2 h3 fits_script show ?thesis
    by blast
qed

text \<open>
  C6 (monotonicity), as the specification states it, fails on the notebook's arithmetic:
  rounding \<open>big_number\<close> and the product can raise \<open>alpha_1\<close> by more than the growth of
  \<open>alpha_2\<^sup>2\<close> takes away. With \<open>sigma2 = 4\<close>, \<open>tau = 8\<close> and the confidence scales
  \<open>2\<^sup>6\<^sup>0 + 127 < 2\<^sup>6\<^sup>0 + 129\<close>, the shape goes from \<open>2\<^sup>5\<^sup>8\<close> to \<open>2\<^sup>5\<^sup>8 + 64\<close> and the variance
  \<open>alpha_1 / alpha_2\<^sup>2\<close>, taken exactly, increases.
\<close>

theorem variance_increases_counterexample:
  "configurator (PInt 4) (PInt 8) (PInt (2 ^ 60 + 127)) fresh =
     Inr (PFloat (Finite (2 ^ 58)), PInt (2 ^ 60 + 127),
          PFloat (Finite (2 ^ 57)), PInt (2 ^ 60 + 127),
          PFloat (Finite (1 / 4)), PFloat (Finite (1 / 8))) \<and>
   configurator (PInt 4) (PInt 8) (PInt (2 ^ 60 + 129)) fresh =
     Inr (PFloat (Finite (2 ^ 58 + 64)), PInt (2 ^ 60 + 129),
          PFloat (Finite (2 ^ 57 + 32)), PInt (2 ^ 60 + 129),
          PFloat (Finite (1 / 4)), PFloat (Finite (1 / 8))) \<and>
   (2 ^ 58 :: real) / rv (PInt (2 ^ 60 + 127)) ^ 2 < (2 ^ 58 + 64) / rv (PInt (2 ^ 60 + 129)) ^ 2"
  by (simp add: configurator_eval num_eval)

text \<open>
  C6, amended. The variance of the Gamma prior is read as the exact number
  \<open>alpha_1 / alpha_2\<^sup>2\<close> that the two values produced determine. For \<open>sigma2\<close>, \<open>tau\<close> and
  two confidence scales each an int or a finite float between \<open>2\<^sup>-\<^sup>3\<^sup>0\<^sup>0\<close> and \<open>2\<^sup>3\<^sup>0\<^sup>0\<close>, the
  second at least \<open>1 + 2\<^sup>-\<^sup>4\<^sup>8\<close> times the first, both runs complete and the variance of the
  run with the larger scale is strictly below that of the run with the smaller one;
  likewise \<open>lambda_1 / lambda_2\<^sup>2\<close>. The states the two runs start from are arbitrary. The
  margin leaves room for the two further roundings of evaluating \<^verbatim>\<open>alpha_1/alpha_2**2\<close>
  in doubles.
\<close>

theorem variance_decreases:
  assumes "moderate sigma2" and "moderate tau" and "moderate b1" and "moderate b2"
    and "rv b1 * (1 + 1 / 2 ^ 48) \<le> rv b2"
  shows "\<exists>a1 l1 a l a1' l1'.
     configurator sigma2 tau b1 s =
       Inr (PFloat (Finite a1), b1, PFloat (Finite l1), b1, a, l) \<and>
     configurator sigma2 tau b2 s' =
       Inr (PFloat (Finite a1'), b2, PFloat (Finite l1'), b2, a, l) \<and>
     a1' / rv b2 ^ 2 < a1 / rv b1 ^ 2 \<and> l1' / rv b2 ^ 2 < l1 / rv b1 ^ 2"
proof -
  from moderate_product [OF assms(1,3)] obtain a p a1 where
    a: "num_truediv (PInt 1) sigma2 = Inr (PFloat (Finite a))"
      "num_mul b1 (PFloat (Finite a)) = Inr (PFloat (Finite a1))"
      "0 < a" "0 < p" "0 < rv b1"
      "\<bar>p - rv b1\<bar> \<le> rv b1 / 2 ^ 53" "\<bar>a1 - p * a\<bar> \<le> p * a / 2 ^ 53"
    by blast
  from moderate_product [OF assms(1,4)] a(1) obtain p' a1' where
    a': "num_mul b2 (PFloat (Finite a)) = Inr (PFloat (Finite a1'))"
      "0 < p'" "0 < rv b2"
      "\<bar>p' - rv b2\<bar> \<le> rv b2 / 2 ^ 53" "\<bar>a1' - p' * a\<bar> \<le> p' * a / 2 ^ 53"
    by auto
  from moderate_product [OF assms(2,3)] obtain l q l1 where
    l: "num_truediv (PInt 1) tau = Inr (PFloat (Finite l))"
      "num_mul b1 (PFloat (Finite l)) = Inr (PFloat (Finite l1))"
      "0 < l" "0 < q"
      "\<bar>q - rv b1\<bar> \<le> rv b1 / 2 ^ 53" "\<bar>l1 - q * l\<bar> \<le> q * l / 2 ^ 53"
    by blast
  from moderate_product [OF assms(2,4)] l(1) obtain q' l1' where
    l': "num_mul b2 (PFloat (Finite l)) = Inr (PFloat (Finite l1'))"
      "0 < q'"
      "\<bar>q' - rv b2\<bar> \<le> rv b2 / 2 ^ 53" "\<bar>l1' - q' * l\<bar> \<le> q' * l / 2 ^ 53"
    by auto
  have "configurator sigma2 tau b1 s =
       Inr (PFloat (Finite a1), b1, PFloat (Finite l1), b1, PFloat (Finite a), PFloat (Finite l))"
    using a(1,2) l(1,2) by (simp add: configurator_eval bind_res_def del: num_mul.simps)
  moreover have "configurator sigma2 tau b2 s' =
       Inr (PFloat (Finite a1'), b2, PFloat (Finite l1'), b2, PFloat (Finite a), PFloat (Finite l))"
    using a(1) a'(1) l(1) l'(1) by (simp add: configurator_eval bind_res_def del: num_mul.simps)
  moreover have "a1' / rv b2 ^ 2 < a1 / rv b1 ^ 2"
    by (rule variance_arith [OF a(3) a(5) a'(3) a(4) a'(2) a(6) a(7) a'(4) a'(5) assms(5)])
  moreover have "l1' / rv b2 ^ 2 < l1 / rv b1 ^ 2"
    by (rule variance_arith [OF l(3) a(5) a'(3) l(4) l'(2) l(5) l(6) l'(3) l'(4) assms(5)])
  ultimately show ?thesis by blast
qed

theorem variance_decreases_witness:
  "moderate (PInt 3) \<and> moderate (PInt 8) \<and> moderate (PInt (10 ^ 4)) \<and> moderate (PInt (10 ^ 5)) \<and>
   rv (PInt (10 ^ 4)) * (1 + 1 / 2 ^ 48) \<le> rv (PInt (10 ^ 5)) \<and>
   (\<exists>a1 l1 a l a1' l1'.
     configurator (PInt 3) (PInt 8) (PInt (10 ^ 4)) fresh =
       Inr (PFloat (Finite a1), PInt (10 ^ 4), PFloat (Finite l1), PInt (10 ^ 4), a, l) \<and>
     configurator (PInt 3) (PInt 8) (PInt (10 ^ 5)) fresh =
       Inr (PFloat (Finite a1'), PInt (10 ^ 5), PFloat (Finite l1'), PInt (10 ^ 5), a, l) \<and>
     a1' / rv (PInt (10 ^ 5)) ^ 2 < a1 / rv (PInt (10 ^ 4)) ^ 2 \<and>
     l1' / rv (PInt (10 ^ 5)) ^ 2 < l1 / rv (PInt (10 ^ 4)) ^ 2)"
proof -
  have h1: "moderate (PInt 3)" and h2: "moderate (PInt 8)"
    and h3: "moderate (PInt (10 ^ 4))" and h4: "moderate (PInt (10 ^ 5))"
    and h5: "rv (PInt (10 ^ 4)) * (1 + 1 / 2 ^ 48) \<le> rv (PInt (10 ^ 5))"
    by simp_all
  from variance_decreases [OF h1 h2 h3 h4 h5, of fresh fresh] h1 h2 h3 h4 h5 show ?thesis
    by blast
qed

text \<open>
  C7 (worked example). With the notebook's own literals, \<open>sigma2 = 11.8\<close>, \<open>tau = 10\<close> and
  \<open>big_number = 10\<^sup>5\<close>, the chunk completes from any state with \<open>alpha_2 = 100000\<close> and
  \<open>lambda_2 = 100000\<close>, both ints, \<open>lambda_1 = 10000.0\<close> exactly, \<open>lam\<close> the double that the
  literal \<^verbatim>\<open>0.1\<close> denotes, and with \<open>alpha\<close> within \<open>0.000005\<close> of \<open>0.08475\<close> and \<open>alpha_1\<close>
  within \<open>0.005\<close> of \<open>8474.58\<close>.
\<close>

theorem worked_example:
  "\<exists>a1 a. fst (bayes_hyper_script s) = None \<and>
     outputs (env (snd (bayes_hyper_script s))) =
       Inr (PFloat (Finite a1), PInt 100000, PFloat (Finite 10000), PInt 100000,
            PFloat (Finite a), float_lit (1 / 10)) \<and>
     \<bar>a - 8475 / 100000\<bar> \<le> 5 / 1000000 \<and> \<bar>a1 - 847458 / 100\<bar> \<le> 5 / 1000"
proof (intro exI conjI)
  have run: "bayes_hyper_script s =
     (None,
      s\<lparr>env := (env s)(''big_number'' \<mapsto> Num (PInt (10 ^ 5)),
             ''alpha'' \<mapsto> Num (PFloat (Finite (381660985370381 / 2 ^ 52))),
             ''alpha_1'' \<mapsto> Num (PFloat (Finite (2329473787661017 / 2 ^ 38))),
             ''alpha_2'' \<mapsto> Num (PInt (10 ^ 5)),
             ''lam'' \<mapsto> Num (PFloat (Finite (3602879701896397 / 2 ^ 55))),
             ''lambda_1'' \<mapsto> Num (PFloat (Finite 10000)),
             ''lambda_2'' \<mapsto> Num (PInt (10 ^ 5))),
        reads := reads s @ [''big_number'', ''alpha'', ''big_number'', ''big_number'',
             ''lam'', ''big_number'']\<rparr>)"
    unfolding bayes_hyper_script_def script_values(1)
    by (rule bayes_hyper_ok [OF script_values(2,3,4,6)])
  show "fst (bayes_hyper_script s) = None"
    by (simp add: run)
  show "outputs (env (snd (bayes_hyper_script s))) =
       Inr (PFloat (Finite (2329473787661017 / 2 ^ 38)), PInt 100000, PFloat (Finite 10000),
            PInt 100000, PFloat (Finite (381660985370381 / 2 ^ 52)), float_lit (1 / 10))"
    by (simp add: run outputs_def num_of_def bind_res_def script_values(5))
  show "\<bar>381660985370381 / 2 ^ 52 - 8475 / 100000\<bar> \<le> (5 / 1000000 :: real)"
    by simp
  show "\<bar>2329473787661017 / 2 ^ 38 - 847458 / 100\<bar> \<le> (5 / 1000 :: real)"
    by simp
qed

section \<open>Errors and effects of the chunk\<close>

text \<open>
  C4 (error handling), as the specification states it, fails on the notebook: nothing
  validates the inputs. With \<open>sigma2 = -1\<close> the chunk raises nothing and yields a negative
  shape \<open>alpha_1\<close>.
\<close>

theorem no_validation_counterexample:
  "configurator (PInt (- 1)) (PInt 10) (PInt (10 ^ 5)) fresh =
     Inr (PFloat (Finite (- 100000)), PInt 100000, PFloat (Finite 10000), PInt 100000,
          PFloat (Finite (- 1)), PFloat (Finite (3602879701896397 / 2 ^ 55)))"
  by (simp add: configurator_eval num_eval)

text \<open>
  C4, amended. The chunk has no check of its own; an input that is negative is not
  refused. It fails in three cases only, each before the \<^verbatim>\<open>BayesianRidge\<close> call is
  attempted: \<^verbatim>\<open>ZeroDivisionError\<close> when \<open>sigma2\<close> is zero; otherwise \<^verbatim>\<open>OverflowError\<close> when
  the confidence scale is an int too large for a double; otherwise
  \<^verbatim>\<open>ZeroDivisionError\<close> when \<open>tau\<close> is zero. For every other input the six values are
  produced, so no strictly positive input whose confidence scale converts to a double
  fails.
\<close>

theorem failures:
  "(zero_num sigma2 \<longrightarrow> configurator sigma2 tau big s = Inl ZeroDivisionError) \<and>
   (\<not> zero_num sigma2 \<and> \<not> fits big \<longrightarrow> configurator sigma2 tau big s = Inl OverflowError) \<and>
   (\<not> zero_num sigma2 \<and> fits big \<and> zero_num tau \<longrightarrow>
      configurator sigma2 tau big s = Inl ZeroDivisionError) \<and>
   (\<not> zero_num sigma2 \<and> fits big \<and> \<not> zero_num tau \<longrightarrow>
      (\<exists>t. configurator sigma2 tau big s = Inr t)) \<and>
   (configurator sigma2 tau big s = Inl e \<longrightarrow>
      fst (bayes_chunk sigma2 tau big s) = Some e \<and>
      calls (snd (bayes_chunk sigma2 tau big s)) = calls s)"
proof (intro conjI impI)
  assume "zero_num sigma2"
  then show "configurator sigma2 tau big s = Inl ZeroDivisionError"
    by (simp add: configurator_eval truediv_one_zero bind_res_def)
next
  assume "\<not> zero_num sigma2 \<and> \<not> fits big"
  then obtain a where "num_truediv (PInt 1) sigma2 = Inr (PFloat a)" and "\<not> fits big"
    using truediv_one_nonzero by blast
  with mul_float_overflow [of big a] show "configurator sigma2 tau big s = Inl OverflowError"
    by (simp add: configurator_eval bind_res_def del: num_mul.simps)
next
  assume h: "\<not> zero_num sigma2 \<and> fits big \<and> zero_num tau"
  then obtain a where a: "num_truediv (PInt 1) sigma2 = Inr (PFloat a)"
    using truediv_one_nonzero by blast
  from h mul_float_fits obtain a1 where "num_mul big (PFloat a) = Inr (PFloat a1)" by blast
  with a h show "configurator sigma2 tau big s = Inl ZeroDivisionError"
    by (simp add: configurator_eval truediv_one_zero bind_res_def del: num_mul.simps)
next
  assume h: "\<not> zero_num sigma2 \<and> fits big \<and> \<not> zero_num tau"
  then obtain a l where a: "num_truediv (PInt 1) sigma2 = Inr (PFloat a)"
    and l: "num_truediv (PInt 1) tau = Inr (PFloat l)"
    using truediv_one_nonzero by blast
  from h mul_float_fits obtain a1 where a1: "num_mul big (PFloat a) = Inr (PFloat a1)"
    by blast
  from h mul_float_fits obtain l1 where "num_mul big (PFloat l) = Inr (PFloat l1)"
    by blast
  with a l a1 show "\<exists>t. configurator sigma2 tau big s = Inr t"
    by (simp add: configurator_eval bind_res_def del: num_mul.simps)
next
  assume "configurator sigma2 tau big s = Inl e"
  from bayes_chunk_raise [OF this] bayes_hyper_frame [of sigma2 tau big s]
  show "fst (bayes_chunk sigma2 tau big s) = Some e"
    and "calls (snd (bayes_chunk sigma2 tau big s)) = calls s"
    by simp_all
qed

theorem failures_witness:
  "zero_num (PInt 0) \<and>
   configurator (PInt 0) (PInt 10) (PInt (10 ^ 5)) loaded = Inl ZeroDivisionError \<and>
   fst (bayes_chunk (PInt 0) (PInt 10) (PInt (10 ^ 5)) loaded) = Some ZeroDivisionError \<and>
   calls (snd (bayes_chunk (PInt 0) (PInt 10) (PInt (10 ^ 5)) loaded)) = calls loaded \<and>
   (\<not> zero_num (PInt 4) \<and> \<not> fits (PInt (10 ^ 309))) \<and>
   configurator (PInt 4) (PInt 8) (PInt (10 ^ 309)) loaded = Inl OverflowError \<and>
   (\<not> zero_num (PInt 4) \<and> fits (PInt (10 ^ 5)) \<and> zero_num (PFloat NegZero)) \<and>
   configurator (PInt 4) (PFloat NegZero) (PInt (10 ^ 5)) loaded = Inl ZeroDivisionError \<and>
   (\<not> zero_num (PInt 4) \<and> fits (PInt (10 ^ 5)) \<and> \<not> zero_num (PInt 8)) \<and>
   (\<exists>t. configurator (PInt 4) (PInt 8) (PInt (10 ^ 5)) loaded = Inr t)"
proof -
  have h1: "zero_num (PInt 0)"
    and h2: "\<not> zero_num (PInt 4) \<and> \<not> fits (PInt (10 ^ 309))"
    and h3: "\<not> zero_num (PInt 4) \<and> fits (PInt (10 ^ 5)) \<and> zero_num (PFloat NegZero)"
    and h4: "\<not> zero_num (PInt 4) \<and> fits (PInt (10 ^ 5)) \<and> \<not> zero_num (PInt 8)"
    using not_fits_huge fits_script by simp_all
  from failures [of "PInt 0" "PInt 10" "PInt (10 ^ 5)" loaded ZeroDivisionError]
    failures [of "PInt 4" "PInt 8" "PInt (10 ^ 309)" loaded]
    failures [of "PInt 4" "PFloat NegZero" "PInt (10 ^ 5)" loaded]
    failures [of "PInt 4" "PInt 8" "PInt (10 ^ 5)" loaded]
    h1 h2 h3 h4
  show ?thesis
    by blast
qed

text \<open>
  C8 (purity), as the specification states it, fails on the notebook: the chunk is a
  script over module-level names, and besides the six outputs it binds \<^verbatim>\<open>big_number\<close>,
  which a fresh kernel does not have.
\<close>

theorem binds_big_number_counterexample:
  "env (snd (bayes_hyper (float_lit (118 / 10)) (PInt 10) (PInt (10 ^ 5)) fresh)) ''big_number'' =
     Some (Num (PInt 100000)) \<and>
   env fresh ''big_number'' = None"
proof -
  note h = bayes_hyper_ok [OF script_values(2,3,4,6), of fresh]
  show ?thesis
    unfolding script_values(1) h by (simp add: fresh_def)
qed

text \<open>
  C8, amended. The seven assignments read no name they have not just bound themselves:
  run from any two states on equal inputs they yield the same outcome and the same six
  values. They print nothing and call nothing, and they change the table of names only
  at the seven names they assign, the six outputs and \<^verbatim>\<open>big_number\<close>; every other binding
  is left as it was.
\<close>

theorem state_independence:
  "configurator sigma2 tau big s1 = configurator sigma2 tau big s2 \<and>
   out (snd (bayes_hyper sigma2 tau big s1)) = out s1 \<and>
   calls (snd (bayes_hyper sigma2 tau big s1)) = calls s1 \<and>
   (x \<notin> {''big_number'', ''alpha'', ''alpha_1'', ''alpha_2'', ''lam'', ''lambda_1'', ''lambda_2''} \<longrightarrow>
      env (snd (bayes_hyper sigma2 tau big s1)) x = env s1 x)"
  using bayes_hyper_frame [of sigma2 tau big s1 x] by (simp add: configurator_eval)

theorem state_independence_witness:
  "''X_train'' \<notin> {''big_number'', ''alpha'', ''alpha_1'', ''alpha_2'', ''lam'', ''lambda_1'', ''lambda_2''} \<and>
   configurator (float_lit (118 / 10)) (PInt 10) (PInt (10 ^ 5)) loaded =
     configurator (float_lit (118 / 10)) (PInt 10) (PInt (10 ^ 5)) fresh \<and>
   out (snd (bayes_hyper (float_lit (118 / 10)) (PInt 10) (PInt (10 ^ 5)) loaded)) = out loaded \<and>
   env (snd (bayes_hyper (float_lit (118 / 10)) (PInt 10) (PInt (10 ^ 5)) loaded)) ''X_train'' =
     env loaded ''X_train''"
proof -
  have h: "''X_train'' \<notin> {''big_number'', ''alpha'', ''alpha_1'', ''alpha_2'', ''lam'', ''lambda_1'', ''lambda_2''}"
    by simp
  from state_independence
    [of "float_lit (118 / 10)" "PInt 10" "PInt (10 ^ 5)" loaded fresh "''X_train''"] h
  show ?thesis
    by blast
qed

section \<open>The other cells\<close>

text \<open>
  C9 (undefined names in the report cell). The report cell reads \<^verbatim>\<open>ridgeCV\<close>, which no
  cell binds: the fitted models are bound to \<^verbatim>\<open>ridgeCV_model\<close> and \<^verbatim>\<open>lassoCV_model\<close>. From
  any state in which \<^verbatim>\<open>ridgeCV\<close> is unbound, the report cell raises
  \<^verbatim>\<open>NameError\<close> for \<^verbatim>\<open>ridgeCV\<close> and changes nothing but the log of lookups; the three cells
  before it complete, bind the two models and leave \<^verbatim>\<open>ridgeCV\<close> unbound, and \<^verbatim>\<open>lassoCV\<close> too
  when it was unbound; so the notebook run in order ends in that \<^verbatim>\<open>NameError\<close> with nothing
  printed.
\<close>

theorem report_name_error:
  assumes "env s ''ridgeCV'' = None"
  shows "cell_report s = (Some (NameError ''ridgeCV''), s\<lparr>reads := reads s @ [''ridgeCV'']\<rparr>) \<and>
         fst (block [cell_data, cell_regularized, cell_cv] s) = None \<and>
         env (snd (block [cell_data, cell_regularized, cell_cv] s)) ''ridgeCV'' = None \<and>
         env (snd (block [cell_data, cell_regularized, cell_cv] s)) ''lassoCV'' = env s ''lassoCV'' \<and>
         env (snd (block [cell_data, cell_regularized, cell_cv] s)) ''ridgeCV_model'' =
           Some (Call (Lib ''sklearn.linear_model.RidgeCV'') []
             [(''alphas'', ListV [Num (float_lit (1 / 100)), Num (PInt 1), Num (PInt 100)])]) \<and>
         env (snd (block [cell_data, cell_regularized, cell_cv] s)) ''lassoCV_model'' =
           Some (Call (Lib ''sklearn.linear_model.LassoCV'') []
             [(''alphas'', ListV [Num (float_lit (1 / 100)), Num (PInt 1), Num (PInt 100)])]) \<and>
         fst (notebook s) = Some (NameError ''ridgeCV'') \<and>
         out (snd (notebook s)) = out s"
proof -
  from prelude_eval [of s] obtain s' where
    p: "block [cell_data, cell_regularized, cell_cv] s = (None, s')" "out s' = out s"
      "env s' ''ridgeCV'' = env s ''ridgeCV''" "env s' ''lassoCV'' = env s ''lassoCV''"
      "env s' ''ridgeCV_model'' =
         Some (Call (Lib ''sklearn.linear_model.RidgeCV'') []
           [(''alphas'', ListV [Num (float_lit (1 / 100)), Num (PInt 1), Num (PInt 100)])])"
      "env s' ''lassoCV_model'' =
         Some (Call (Lib ''sklearn.linear_model.LassoCV'') []
           [(''alphas'', ListV [Num (float_lit (1 / 100)), Num (PInt 1), Num (PInt 100)])])"
    by blast
  from p(3) assms have u: "env s' ''ridgeCV'' = None" by simp
  have "notebook s =
      block ([cell_data, cell_regularized, cell_cv] @ [cell_report, cell_bayes, cell_poisson]) s"
    by (simp add: notebook_def)
  also have "\<dots> = block [cell_report, cell_bayes, cell_poisson] s'"
    unfolding block_append p(1) by simp
  also have "\<dots> = cell_report s'"
    by (simp add: cell_report_eval [OF u])
  finally have nb: "notebook s = cell_report s'" .
  show ?thesis
    using p u by (simp add: nb cell_report_eval [OF u] cell_report_eval [OF assms])
qed

theorem report_name_error_witness:
  "env fresh ''ridgeCV'' = None \<and>
   cell_report fresh = (Some (NameError ''ridgeCV''), fresh\<lparr>reads := reads fresh @ [''ridgeCV'']\<rparr>) \<and>
   fst (notebook fresh) = Some (NameError ''ridgeCV'') \<and>
   out (snd (notebook fresh)) = out fresh"
proof -
  have h: "env fresh ''ridgeCV'' = None"
    by (simp add: fresh_def)
  from report_name_error [OF h] h show ?thesis
    by blast
qed



end
